theory Spec2Isabelle
  imports Main "HOL-Library.Char_ord" "HOL-Library.List_Lexorder"
begin

section \<open>Strings, bytes and runes\<close>

text \<open>
  A Go string is a sequence of bytes, so it is a \<^typ>\<open>string\<close> here (a list of 8-bit
  \<^typ>\<open>char\<close>). \<open>stmt[i]\<close> is a byte and \<open>rune(stmt[i])\<close> is the code point with the same
  number, below 256. The order on strings that Go's \<open><\<close> uses is the bytewise
  lexicographic one, which is the order of \<open>HOL-Library.List_Lexorder\<close> over
  \<open>HOL-Library.Char_ord\<close>.

  The predicates of Go's \<open>unicode\<close> package are written out for Latin-1 (every rune that
  comes from one byte). Beyond Latin-1 they are table lookups of the standard library;
  those tables are a parameter of the model, as are the non-ASCII paths of
  \<open>strings.ToLower\<close>, \<open>strings.ToUpper\<close> and \<open>strings.TrimSpace\<close> and of the test
  whether an identifier is exported.
\<close>

type_synonym rune = nat

record unicode =
  uIsLetter :: "rune \<Rightarrow> bool"
  uIsDigit :: "rune \<Rightarrow> bool"
  uIsNumber :: "rune \<Rightarrow> bool"
  uIsSpace :: "rune \<Rightarrow> bool"
  uToLower :: "string \<Rightarrow> string"
  uToUpper :: "string \<Rightarrow> string"
  uTrimFunc :: "string \<Rightarrow> string"
  uTrimRightFunc :: "string \<Rightarrow> string"
  uIsExported :: "string \<Rightarrow> bool"

definition byte :: "char \<Rightarrow> rune" where
  "byte c = of_char c"

definition IsSpace :: "unicode \<Rightarrow> rune \<Rightarrow> bool" where
  "IsSpace U r =
     (if r < 256 then r \<in> {9, 10, 11, 12, 13, 32, 133, 160} else uIsSpace U r)"

definition IsLetter :: "unicode \<Rightarrow> rune \<Rightarrow> bool" where
  "IsLetter U r =
     (if r < 256 then
        (65 \<le> r \<and> r \<le> 90) \<or> (97 \<le> r \<and> r \<le> 122) \<or> r = 170 \<or> r = 181 \<or> r = 186 \<or>
        (192 \<le> r \<and> r \<le> 214) \<or> (216 \<le> r \<and> r \<le> 246) \<or> (248 \<le> r \<and> r \<le> 255)
      else uIsLetter U r)"

definition IsDigit :: "unicode \<Rightarrow> rune \<Rightarrow> bool" where
  "IsDigit U r = (if r < 256 then 48 \<le> r \<and> r \<le> 57 else uIsDigit U r)"

definition IsNumber :: "unicode \<Rightarrow> rune \<Rightarrow> bool" where
  "IsNumber U r =
     (if r < 256 then
        (48 \<le> r \<and> r \<le> 57) \<or> r = 178 \<or> r = 179 \<or> r = 185 \<or> (188 \<le> r \<and> r \<le> 190)
      else uIsNumber U r)"

text \<open>
  \<open>string(rune(b))\<close> for a byte \<open>b\<close>: the UTF-8 encoding of the code point with the
  byte's number, which is the byte itself below 128 and two bytes from there on.
\<close>

definition runeString :: "char \<Rightarrow> string" where
  "runeString b =
     (if byte b < 128 then [b]
      else [char_of (192 + byte b div 64), char_of (128 + byte b mod 64)])"

section \<open>Errors\<close>

text \<open>
  The kinds of \<open>reflect\<close>, and the token types and positions of the lexer, which the
  errors carry. \<open>IntKind\<close> is the kind \<open>Int\<close>, \<open>INT_LIT\<close> the token type \<open>INT\<close>.

  One constructor for each place where the source builds an error, carrying the values
  its message is formatted from. A panic is kept apart from an error: a function that
  can panic returns \<open>panic + 'a\<close>.
\<close>

datatype Kind =
    Invalid | Bool | IntKind | Int8 | Int16 | Int32 | Int64
  | Uint | Uint8 | Uint16 | Uint32 | Uint64 | Uintptr
  | Float32 | Float64 | Complex64 | Complex128
  | Array | Chan | Func | Interface | Map | Ptr | Slice | String | Struct | UnsafePointer

datatype TokenType =
    UNKNOWN | EOF | SEPARATOR | IDENT | INT_LIT | STRING | COMMA
  | LPAREN | RPAREN | LBRACKET | RBRACKET | BITAND | PERIOD

record Position =
  Offset :: nat
  Line :: int
  Column :: int

text \<open>The messages that the path parser collects, with the values they are formatted from.\<close>

datatype SyntaxError =
    CouldNotParseInteger Position string
  | InvalidCharacter Position TokenType
  | ExpectedToken Position TokenType TokenType

datatype error =
    UnexpectedNamedArgument string
  | UnexpectedEmptyTag
  | UnexpectedTagValue string
  | WrapReflect error
  | ExpectedSameKind Kind Kind
  | ExpectedOneMap nat
  | ExpectedAtLeastOneArgument
  | ExpectedSlice Kind
  | ExpectedSliceOfStruct
  | SyntaxErrors "SyntaxError list"
  | ErrTooMany
  | UnexpectedExpression
  | ExpectedSelector
  | ExpectedASSelector string
  | FieldNotFound string string
  | NoFieldsFound string
  | NoEntityFound string
  | MissingDestination string "string list"
  | ExpectedStruct Kind
  | DriverError string

datatype panic =
    ValueError Kind
  | TypeOfZeroValue
  | InterfaceConversion
  | ElemOfInvalidType
  | IndexOutOfRange
  | SliceBoundsOutOfRange
  | InterfaceOfUnexported
  | NilPointerDereference
  | UnexpectedType string

section \<open>Bindings\<close>

text \<open>
  A record binding, as \<open>parseRecords\<close> returns it. The set \<open>fields\<close> is the list
  \<open>fieldSet\<close> of its elements, and \<open>start\<close> and \<open>end\<close> are \<open>startPos\<close> and \<open>endPos\<close>.
\<close>

record recordBinding =
  name :: string
  prefix :: string
  fieldSet :: "string list"
  wildcard :: bool
  startPos :: int
  endPos :: int

section \<open>The named-parameter scanner\<close>

text \<open>\<open>alphaNumeric\<close>, \<open>numeric\<close> and the table \<open>prefixes\<close>.\<close>

definition alphaNumeric :: "unicode \<Rightarrow> rune \<Rightarrow> bool" where
  "alphaNumeric U a \<longleftrightarrow> IsLetter U a \<or> IsDigit U a \<or> IsNumber U a \<or> a = byte CHR ''_''"

definition numeric :: "unicode \<Rightarrow> rune \<Rightarrow> bool" where
  "numeric U a \<longleftrightarrow> IsDigit U a \<or> IsNumber U a"

definition prefixes :: "unicode \<Rightarrow> char \<Rightarrow> (rune \<Rightarrow> bool) option" where
  "prefixes U r =
     (if r = CHR '':'' then Some (alphaNumeric U)
      else if r = CHR ''@'' then Some (alphaNumeric U)
      else if r = CHR ''$'' then Some (alphaNumeric U)
      else if r = CHR ''?'' then Some (numeric U)
      else None)"

definition isNameTerminator :: "unicode \<Rightarrow> rune \<Rightarrow> bool" where
  "isNameTerminator U a \<longleftrightarrow>
     IsSpace U a \<or> a = byte CHR '','' \<or> a = byte CHR '';'' \<or> a = byte CHR ''=''
       \<or> a = byte CHR '')''"

text \<open>
  \<open>strings.IndexRune(stmt, c)\<close> for an ASCII rune \<open>c\<close>: the index of its first
  occurrence, \<open>None\<close> for Go's \<open>-1\<close>.
\<close>

fun IndexRune :: "string \<Rightarrow> char \<Rightarrow> nat option" where
  "IndexRune [] c = None"
| "IndexRune (x # xs) c =
     (if x = c then Some 0 else map_option Suc (IndexRune xs c))"

text \<open>
  \<open>indexOfInputNamedArgs\<close>: the least index of any of the four prefixes. The source
  ranges over the map \<open>prefixes\<close> and keeps the minimum, so the order of the map's
  keys does not matter; they are visited here in the order the map literal lists them.
\<close>

definition indexOfInputNamedArgs :: "string \<Rightarrow> nat option" where
  "indexOfInputNamedArgs stmt =
     fold (\<lambda>prefix res.
             case IndexRune stmt prefix of
               None \<Rightarrow> res
             | Some index \<Rightarrow>
                 (case res of
                    None \<Rightarrow> Some index
                  | Some r \<Rightarrow> if index < r then Some index else Some r))
          [CHR '':'', CHR ''@'', CHR ''$'', CHR ''?''] None"

record nameBinding =
  prefix :: char
  name :: string

text \<open>
  The inner loop of \<open>parseNames\<close>, \<open>for i = i + 1; i < len(stmt); i++\<close>: it is entered
  at \<open>i + 1\<close> with the empty name, and leaves with the index it stopped at and the name,
  or with the error of the \<open>return\<close> in its body.
\<close>

function consumeName ::
  "unicode \<Rightarrow> string \<Rightarrow> (rune \<Rightarrow> bool) \<Rightarrow> nat \<Rightarrow> string \<Rightarrow> error + (nat \<times> string)" where
  "consumeName U stmt predicate i nm =
     (if i < length stmt then
        (let char = byte (stmt ! i) in
         if predicate char
         then consumeName U stmt predicate (i + 1) (nm @ runeString (stmt ! i))
         else if isNameTerminator U char then Inr (i, nm)
         else Inl (UnexpectedNamedArgument stmt))
      else Inr (i, nm))"
  by pat_completeness auto
termination
  by (relation "measure (\<lambda>(U, stmt, predicate, i, nm). length stmt - i)") auto

declare consumeName.simps [simp del]

text \<open>
  The outer loop of \<open>parseNames\<close>, with the loop variable \<open>i\<close> and the slice \<open>names\<close>
  as arguments. \<open>continue\<close> and the end of the body go on at \<open>i + 1\<close>; the two
  \<open>break\<close>s leave with the names found so far. After a name, \<open>i\<close> is at least 1, so
  \<open>i += (index - 1)\<close> followed by the loop's \<open>i++\<close> is exact on naturals.
\<close>

function parseNamesLoop ::
  "unicode \<Rightarrow> string \<Rightarrow> nat \<Rightarrow> nameBinding list \<Rightarrow> error + nameBinding list" where
  "parseNamesLoop U stmt i names =
     (if i < length stmt then
        (let r = stmt ! i in
         case prefixes U r of
           None \<Rightarrow> parseNamesLoop U stmt (i + 1) names
         | Some predicate \<Rightarrow>
             if r = CHR ''?'' \<and> i + 1 < length stmt \<and> isNameTerminator U (byte (stmt ! (i + 1)))
             then parseNamesLoop U stmt (i + 1) names
             else
               (case consumeName U stmt predicate (i + 1) [] of
                  Inl e \<Rightarrow> Inl e
                | Inr (i', nm) \<Rightarrow>
                    (let names' = names @ [\<lparr>prefix = r, name = nm\<rparr>] in
                     if i' \<ge> length stmt then Inr names'
                     else
                       (case indexOfInputNamedArgs (drop i' stmt) of
                          None \<Rightarrow> Inr names'
                        | Some index \<Rightarrow> parseNamesLoop U stmt ((i' + index - 1) + 1) names'))))
      else Inr names)"
  by pat_completeness auto
termination
proof -
  have prog: "consumeName U stmt p i nm = Inr (j, nm') \<Longrightarrow> i \<le> j"
    for U stmt p i nm j nm'
  proof (induction U stmt p i nm rule: consumeName.induct)
    case (1 U stmt predicate i nm)
    from "1.prems" show ?case
      by (subst (asm) consumeName.simps)
        (auto simp: Let_def split: if_splits dest: "1.IH" [OF _ refl])
  qed
  show ?thesis
    by (relation "measure (\<lambda>(U, stmt, i, names). length stmt - i)")
      (auto dest!: prog)
qed

declare parseNamesLoop.simps [simp del]

text \<open>
  \<open>sort.Slice(names, less)\<close> with \<open>less i j = names[i].name < names[j].name\<close>. The
  routine belongs to the standard library; it is modelled by insertion sort, which the
  library runs on short slices: \<open>insertLess\<close> is the inner loop, which moves the new
  last element to the left while it is less than its left neighbour. Any sorting
  routine gives the names in the same order, and the same list when no two bindings
  have the same name; \<open>sort.Slice\<close> does not say which of two bindings with the same
  name comes first.
\<close>

fun insertLess :: "nameBinding list \<Rightarrow> nameBinding \<Rightarrow> nameBinding list" where
  "insertLess ys x =
     (if ys = [] then [x]
      else if name x < name (last ys) then insertLess (butlast ys) x @ [last ys]
      else ys @ [x])"

declare insertLess.simps [simp del]

definition sortSlice :: "nameBinding list \<Rightarrow> nameBinding list" where
  "sortSlice names = foldl insertLess [] names"

definition parseNames :: "unicode \<Rightarrow> string \<Rightarrow> nat \<Rightarrow> error + nameBinding list" where
  "parseNames U stmt offset =
     (case parseNamesLoop U stmt offset [] of
        Inl e \<Rightarrow> Inl e
      | Inr names \<Rightarrow> Inr (sortSlice names))"



text \<open>A table for closed statements: nothing beyond Latin-1 is a letter, digit or space.\<close>

definition latin1 :: unicode where
  "latin1 = \<lparr>uIsLetter = (\<lambda>r. False), uIsDigit = (\<lambda>r. False), uIsNumber = (\<lambda>r. False),
             uIsSpace = (\<lambda>r. False), uToLower = (\<lambda>s. s), uToUpper = (\<lambda>s. s),
             uTrimFunc = (\<lambda>s. s), uTrimRightFunc = (\<lambda>s. s), uIsExported = (\<lambda>s. False)\<rparr>"

section \<open>Go values as the reflector sees them\<close>

text \<open>
  A destination is an \<open>interface{}\<close> value. The reflector looks at its kind, its type,
  whether a pointer is nil, and the fields and tags of a struct type; the model keeps
  exactly that and leaves out the contents and the identity of variables.
  \<open>Val t\<close> is a variable of type \<open>t\<close> (for a pointer type, the nil pointer), \<open>PtrTo v\<close>
  a pointer to the variable \<open>v\<close>, and \<open>NilValue\<close> the nil interface, which
  \<open>reflect.ValueOf\<close> turns into the zero \<open>reflect.Value\<close>. \<open>Basic k\<close> is a type of
  kind \<open>k\<close> with no structure that the reflector looks into, so \<open>k\<close> is not one of
  \<open>Ptr\<close>, \<open>Slice\<close>, \<open>Map\<close> and \<open>Struct\<close>. A field carries what
  \<open>Tag.Get("db")\<close> is computed from: the value of the \<open>db\<close> key, if the tag has one.
\<close>

datatype GoType =
    Basic Kind
  | PtrT GoType
  | SliceT GoType
  | MapT GoType GoType
  | StructT string "StructField list"
and StructField =
    StructField (fieldName: string) (dbTag: "string option") (fieldType: GoType)

datatype GoValue = NilValue | Val GoType | PtrTo GoValue

fun kindOfType :: "GoType \<Rightarrow> Kind" where
  "kindOfType (Basic k) = k"
| "kindOfType (PtrT t) = Ptr"
| "kindOfType (SliceT t) = Slice"
| "kindOfType (MapT k v) = Map"
| "kindOfType (StructT n fs) = Struct"

fun TypeOf :: "GoValue \<Rightarrow> GoType option" where
  "TypeOf NilValue = None"
| "TypeOf (Val t) = Some t"
| "TypeOf (PtrTo v) = map_option PtrT (TypeOf v)"

text \<open>
  \<open>Type.Elem\<close>: the element type of a pointer, slice or map type; it panics (\<open>None\<close>)
  on a type that has none.
\<close>

fun Elem :: "GoType \<Rightarrow> GoType option" where
  "Elem (PtrT t) = Some t"
| "Elem (SliceT t) = Some t"
| "Elem (MapT k v) = Some v"
| "Elem t = None"

text \<open>\<open>Value.Kind\<close>: \<open>Invalid\<close> for the zero value.\<close>

fun KindOf :: "GoValue \<Rightarrow> Kind" where
  "KindOf NilValue = Invalid"
| "KindOf (Val t) = kindOfType t"
| "KindOf (PtrTo v) = Ptr"

text \<open>
  \<open>reflect.Indirect\<close>: the value a pointer points to, the zero value for a nil pointer,
  and the value itself when it is not a pointer.
\<close>

fun Indirect :: "GoValue \<Rightarrow> GoValue" where
  "Indirect (PtrTo v) = v"
| "Indirect (Val (PtrT t)) = NilValue"
| "Indirect v = v"

text \<open>\<open>Tag.Get("db")\<close>: the empty string when the tag has no such key.\<close>

definition TagGet :: "StructField \<Rightarrow> string" where
  "TagGet f = (case dbTag f of None \<Rightarrow> [] | Some v \<Rightarrow> v)"

subsection \<open>Strings\<close>

text \<open>
  \<open>strings.Split(s, sep)\<close> for a separator that is not empty (the source splits at
  \<open>","\<close> and at \<open>AliasSeparator\<close>): \<open>acc\<close> holds, reversed, the bytes of the part
  being read.
\<close>

function splitAcc :: "string \<Rightarrow> string \<Rightarrow> string \<Rightarrow> string list" where
  "splitAcc sep acc [] = [rev acc]"
| "splitAcc sep acc (c # cs) =
     (if sep \<noteq> [] \<and> take (length sep) (c # cs) = sep
      then rev acc # splitAcc sep [] (drop (length sep) (c # cs))
      else splitAcc sep (c # acc) cs)"
  by pat_completeness auto
termination
  by (relation "measure (\<lambda>(sep, acc, s). length s)") auto

definition Split :: "string \<Rightarrow> string \<Rightarrow> string list" where
  "Split s sep = splitAcc sep [] s"

definition HasPrefix :: "string \<Rightarrow> string \<Rightarrow> bool" where
  "HasPrefix s pre \<longleftrightarrow> length pre \<le> length s \<and> take (length pre) s = pre"

text \<open>
  \<open>strings.ToLower\<close>: on a string of ASCII bytes it maps \<open>A\<close>..\<open>Z\<close> to \<open>a\<close>..\<open>z\<close>;
  any other string goes through the Unicode tables.
\<close>

definition asciiLower :: "char \<Rightarrow> char" where
  "asciiLower c = (if 65 \<le> byte c \<and> byte c \<le> 90 then char_of (byte c + 32) else c)"

definition ToLower :: "unicode \<Rightarrow> string \<Rightarrow> string" where
  "ToLower U s = (if list_all (\<lambda>c. byte c < 128) s then map asciiLower s else uToLower U s)"

section \<open>The type reflector\<close>

record ReflectTag =
  Name :: string
  OmitEmpty :: bool

record ReflectField =
  Name :: string
  Tag :: ReflectTag
  Value :: GoValue

text \<open>
  \<open>Fields\<close> is a Go map; it is an association list with one entry for each key, a
  later assignment to a key replacing the earlier one, as \<open>m[k] = v\<close> does.
\<close>

record ReflectStruct =
  Name :: string
  Fields :: "(string \<times> ReflectField) list"
  Value :: GoValue

text \<open>
  The interface \<open>ReflectInfo\<close> has two implementations: \<open>ReflectValue\<close>, which only
  wraps a value, and \<open>ReflectStruct\<close>. \<open>InfoKind\<close> is its method \<open>Kind\<close>.
\<close>

datatype ReflectInfo = AsValue GoValue | AsStruct ReflectStruct

fun InfoKind :: "ReflectInfo \<Rightarrow> Kind" where
  "InfoKind (AsValue v) = KindOf v"
| "InfoKind (AsStruct r) = KindOf (ReflectStruct.Value r)"

definition mapSet :: "('k \<times> 'v) list \<Rightarrow> 'k \<Rightarrow> 'v \<Rightarrow> ('k \<times> 'v) list" where
  "mapSet m k v =
     (if k \<in> fst ` set m then map (\<lambda>(k', v'). if k' = k then (k', v) else (k', v')) m
      else m @ [(k, v)])"

definition parseTag :: "unicode \<Rightarrow> string \<Rightarrow> error + ReflectTag" where
  "parseTag U tag =
     (if tag = [] then Inl UnexpectedEmptyTag
      else
        (let options = Split tag '','' in
         if length options = 2 then
           (if ToLower U (options ! 1) \<noteq> ''omitempty''
            then Inl (UnexpectedTagValue (options ! 1))
            else Inr \<lparr>ReflectTag.Name = options ! 0, OmitEmpty = True\<rparr>)
         else if length options = 1 then
           Inr \<lparr>ReflectTag.Name = options ! 0, OmitEmpty = False\<rparr>
         else Inr \<lparr>ReflectTag.Name = [], OmitEmpty = False\<rparr>))"

text \<open>
  The loop of \<open>Reflect\<close> over the fields of the struct type, in their order, with the
  map \<open>refStruct.Fields\<close> as accumulator.
\<close>

fun reflectFields ::
  "unicode \<Rightarrow> StructField list \<Rightarrow> (string \<times> ReflectField) list
    \<Rightarrow> error + (string \<times> ReflectField) list" where
  "reflectFields U [] flds = Inr flds"
| "reflectFields U (field # rest) flds =
     (case parseTag U (TagGet field) of
        Inl err \<Rightarrow> Inl err
      | Inr tag \<Rightarrow>
          (let name = (if ReflectTag.Name tag = [] then ToLower U (fieldName field)
                       else ReflectTag.Name tag)
           in reflectFields U rest
                (mapSet flds name
                   \<lparr>ReflectField.Name = fieldName field, Tag = tag,
                    Value = Val (fieldType field)\<rparr>)))"

text \<open>
  \<open>Reflect\<close>. Its callers pass a value that has a type, or the zero value, whose kind
  is not \<open>Struct\<close>.
\<close>

definition Reflect :: "unicode \<Rightarrow> GoValue \<Rightarrow> error + ReflectInfo" where
  "Reflect U value0 =
     (let value = Indirect value0 in
      case value of
        Val (StructT n fs) \<Rightarrow>
          (case reflectFields U fs [] of
             Inl err \<Rightarrow> Inl err
           | Inr flds \<Rightarrow>
               Inr (AsStruct \<lparr>ReflectStruct.Name = n, Fields = flds, Value = value\<rparr>))
      | _ \<Rightarrow> Inr (AsValue value))"

text \<open>
  \<open>ReflectCache.Reflect\<close>, with the cache passed in and returned. \<open>mustBe\<close> panics
  when the destination is not a pointer, and \<open>v.Type()\<close> panics on the zero value that
  \<open>reflect.Indirect\<close> gives for a nil pointer. On an error the cache is left as it was.
\<close>

type_synonym ReflectCache = "(GoType \<times> ReflectInfo) list"

definition mustBe :: "GoValue \<Rightarrow> Kind \<Rightarrow> panic + unit" where
  "mustBe v expected = (if KindOf v \<noteq> expected then Inl (ValueError (KindOf v)) else Inr ())"

definition cacheReflect ::
  "unicode \<Rightarrow> ReflectCache \<Rightarrow> GoValue \<Rightarrow> panic + ((error + ReflectInfo) \<times> ReflectCache)" where
  "cacheReflect U cache value =
     (let raw = value in
      case mustBe raw Ptr of
        Inl p \<Rightarrow> Inl p
      | Inr _ \<Rightarrow>
          (let v = Indirect raw in
           case TypeOf v of
             None \<Rightarrow> Inl TypeOfZeroValue
           | Some t \<Rightarrow>
               (case map_of cache t of
                  Some rs \<Rightarrow> Inr (Inr rs, cache)
                | None \<Rightarrow>
                    (case Reflect U v of
                       Inl err \<Rightarrow> Inr (Inl err, cache)
                     | Inr ri \<Rightarrow> Inr (Inr ri, mapSet cache t ri)))))"


section \<open>The lexer\<close>

subsection \<open>Runes of a string\<close>

text \<open>
  \<open>[]rune(input)\<close> decodes UTF-8; a byte that does not start a well-formed sequence
  becomes \<open>U+FFFD\<close> and decoding goes on at the next byte. \<open>string(runes)\<close> encodes
  again, a surrogate or a value above \<open>U+10FFFF\<close> as \<open>U+FFFD\<close>.
\<close>

definition RuneError :: rune where
  "RuneError = 65533"

definition cont :: "char \<Rightarrow> bool" where
  "cont b \<longleftrightarrow> 128 \<le> byte b \<and> byte b \<le> 191"

definition second :: "rune \<Rightarrow> char \<Rightarrow> bool" where
  "second c0 b \<longleftrightarrow>
     (if c0 = 224 then 160 \<le> byte b \<and> byte b \<le> 191
      else if c0 = 237 then 128 \<le> byte b \<and> byte b \<le> 159
      else if c0 = 240 then 144 \<le> byte b \<and> byte b \<le> 191
      else if c0 = 244 then 128 \<le> byte b \<and> byte b \<le> 143
      else cont b)"

fun runes :: "string \<Rightarrow> rune list" where
  "runes [] = []"
| "runes (b0 # rest) =
     (let c0 = byte b0 in
      if c0 < 128 then c0 # runes rest
      else if 194 \<le> c0 \<and> c0 \<le> 223 then
        (case rest of
           b1 # r1 \<Rightarrow>
             if second c0 b1 then ((c0 - 192) * 64 + (byte b1 - 128)) # runes r1
             else RuneError # runes rest
         | _ \<Rightarrow> RuneError # runes rest)
      else if 224 \<le> c0 \<and> c0 \<le> 239 then
        (case rest of
           b1 # b2 # r2 \<Rightarrow>
             if second c0 b1 \<and> cont b2
             then ((c0 - 224) * 4096 + (byte b1 - 128) * 64 + (byte b2 - 128)) # runes r2
             else RuneError # runes rest
         | _ \<Rightarrow> RuneError # runes rest)
      else if 240 \<le> c0 \<and> c0 \<le> 244 then
        (case rest of
           b1 # b2 # b3 # r3 \<Rightarrow>
             if second c0 b1 \<and> cont b2 \<and> cont b3
             then ((c0 - 240) * 262144 + (byte b1 - 128) * 4096 + (byte b2 - 128) * 64
                    + (byte b3 - 128)) # runes r3
             else RuneError # runes rest
         | _ \<Rightarrow> RuneError # runes rest)
      else RuneError # runes rest)"

definition encodeRune :: "rune \<Rightarrow> string" where
  "encodeRune r =
     (if r < 128 then [char_of r]
      else if r < 2048 then [char_of (192 + r div 64), char_of (128 + r mod 64)]
      else if (55296 \<le> r \<and> r \<le> 57343) \<or> r > 1114111 then
        [char_of (239::nat), char_of (191::nat), char_of (189::nat)]
      else if r < 65536 then
        [char_of (224 + r div 4096), char_of (128 + r div 64 mod 64), char_of (128 + r mod 64)]
      else
        [char_of (240 + r div 262144), char_of (128 + r div 4096 mod 64),
         char_of (128 + r div 64 mod 64), char_of (128 + r mod 64)])"

definition encodeRunes :: "rune list \<Rightarrow> string" where
  "encodeRunes rs = concat (map encodeRune rs)"

subsection \<open>Tokens\<close>

record Token =
  Pos :: Position
  Type :: TokenType
  Literal :: string

definition zeroToken :: Token where
  "zeroToken = \<lparr>Pos = \<lparr>Offset = 0, Line = 0, Column = 0\<rparr>, Type = EOF, Literal = []\<rparr>"

definition MakeToken :: "TokenType \<Rightarrow> rune \<Rightarrow> Token" where
  "MakeToken tokenType c = zeroToken\<lparr>Type := tokenType, Literal := encodeRune c\<rparr>"

definition tokenMap :: "rune \<Rightarrow> TokenType option" where
  "tokenMap c =
     (if c = byte CHR ''('' then Some LPAREN
      else if c = byte CHR '')'' then Some RPAREN
      else if c = byte CHR ''['' then Some LBRACKET
      else if c = byte CHR '']'' then Some RBRACKET
      else if c = byte CHR '','' then Some COMMA
      else if c = byte CHR ''&'' then Some BITAND
      else if c = byte CHR ''.'' then Some PERIOD
      else None)"

subsection \<open>The cursor\<close>

text \<open>
  The lexer's state. \<open>position\<close> and \<open>readPosition\<close> index the runes of the input;
  \<open>char\<close> is 0 at the end of the input.
\<close>

record Lexer =
  input :: "rune list"
  char :: rune
  position :: nat
  readPosition :: nat
  line :: int
  column :: int

definition NewLexer :: "string \<Rightarrow> Lexer" where
  "NewLexer s =
     \<lparr>input = runes s, char = 0, position = 0, readPosition = 0, line = 1, column = 1\<rparr>"

definition ReadNext :: "Lexer \<Rightarrow> Lexer" where
  "ReadNext l =
     (let l1 =
        (if readPosition l \<ge> length (input l) then l\<lparr>char := 0\<rparr>
         else
           (let c = input l ! readPosition l in
            if c = 10 then l\<lparr>char := c, line := line l + 1, column := 1\<rparr>
            else l\<lparr>char := c, column := column l + 1\<rparr>))
      in l1\<lparr>position := readPosition l1, readPosition := readPosition l1 + 1\<rparr>)"

definition PeekN :: "Lexer \<Rightarrow> nat \<Rightarrow> rune" where
  "PeekN l n =
     (if readPosition l + n \<ge> length (input l) then 0 else input l ! (readPosition l + n))"

definition Peek :: "Lexer \<Rightarrow> rune" where
  "Peek l = PeekN l 0"

definition getPosition :: "Lexer \<Rightarrow> Position" where
  "getPosition l = \<lparr>Offset = position l, Line = line l, Column = column l\<rparr>"

definition isLetter :: "unicode \<Rightarrow> rune \<Rightarrow> bool" where
  "isLetter U c \<longleftrightarrow>
     (97 \<le> c \<and> c \<le> 122) \<or> (65 \<le> c \<and> c \<le> 90) \<or> c = byte CHR ''_'' \<or> c = byte CHR ''*''
       \<or> (c \<ge> 128 \<and> IsLetter U c)"

definition isDigit :: "unicode \<Rightarrow> rune \<Rightarrow> bool" where
  "isDigit U c \<longleftrightarrow> (48 \<le> c \<and> c \<le> 57) \<or> (c \<ge> 128 \<and> IsDigit U c)"

definition isQuote :: "rune \<Rightarrow> bool" where
  "isQuote c \<longleftrightarrow> c = 34"

text \<open>
  The loops of the lexer. Each goes on only while the current rune is not 0, and
  \<open>ReadNext\<close> sets it to 0 once the input is used up.
\<close>

function skipSpaces :: "unicode \<Rightarrow> Lexer \<Rightarrow> Lexer" where
  "skipSpaces U l = (if IsSpace U (char l) then skipSpaces U (ReadNext l) else l)"
  by pat_completeness auto
termination
proof (relation "measure (\<lambda>(U, l). (length (input l) - readPosition l)
        + (if IsSpace U (char l) then 1 else 0))", goal_cases)
  case 1
  show ?case by simp
next
  case (2 U l)
  have zero: "\<not> IsSpace U 0"
    by (simp add: IsSpace_def)
  have next_pos: "readPosition (ReadNext l) = readPosition l + 1" "input (ReadNext l) = input l"
    by (simp_all add: ReadNext_def Let_def)
  have at_end: "length (input l) \<le> readPosition l \<Longrightarrow> char (ReadNext l) = 0"
    by (simp add: ReadNext_def Let_def)
  from 2 zero next_pos at_end show ?case
    by (cases "readPosition l < length (input l)") auto
qed

declare skipSpaces.simps [simp del]

definition skipWhitespace :: "unicode \<Rightarrow> Lexer \<Rightarrow> bool \<times> Lexer" where
  "skipWhitespace U l = (IsSpace U (char l), skipSpaces U l)"

definition identChar :: "unicode \<Rightarrow> rune \<Rightarrow> bool" where
  "identChar U c \<longleftrightarrow> isLetter U c \<or> isDigit U c \<or> c = byte CHR ''-''"

function readIdentifierLoop :: "unicode \<Rightarrow> Lexer \<Rightarrow> Lexer" where
  "readIdentifierLoop U l =
     (if identChar U (char l) then readIdentifierLoop U (ReadNext l) else l)"
  by pat_completeness auto
termination
proof (relation "measure (\<lambda>(U, l). (length (input l) - readPosition l)
        + (if identChar U (char l) then 1 else 0))", goal_cases)
  case 1
  show ?case by simp
next
  case (2 U l)
  have zero: "\<not> identChar U 0"
    by (simp add: identChar_def isLetter_def isDigit_def byte_def)
  have next_pos: "readPosition (ReadNext l) = readPosition l + 1" "input (ReadNext l) = input l"
    by (simp_all add: ReadNext_def Let_def)
  have at_end: "length (input l) \<le> readPosition l \<Longrightarrow> char (ReadNext l) = 0"
    by (simp add: ReadNext_def Let_def)
  from 2 zero next_pos at_end show ?case
    by (cases "readPosition l < length (input l)") auto
qed

declare readIdentifierLoop.simps [simp del]

text \<open>
  \<open>readIdentifier\<close> returns \<open>string(l.input[position:l.position])\<close>; it is called with
  a letter as the current rune, so \<open>position\<close> is inside the input.
\<close>

definition readIdentifier :: "unicode \<Rightarrow> Lexer \<Rightarrow> string \<times> Lexer" where
  "readIdentifier U l =
     (let l' = readIdentifierLoop U l in
      (encodeRunes (take (position l' - position l) (drop (position l) (input l))), l'))"

function readStringLoop :: "rune \<Rightarrow> Lexer \<Rightarrow> rune list \<Rightarrow> string option \<times> Lexer" where
  "readStringLoop r l ret =
     (let l1 = ReadNext l in
      if char l1 = 10 then (None, l1)
      else if char l1 = 0 then (None, l1)
      else if char l1 = r then (Some (encodeRunes ret), ReadNext l1)
      else readStringLoop r l1 (ret @ [char l1]))"
  by pat_completeness auto
termination
proof (relation "measure (\<lambda>(r, l, ret). length (input l) - readPosition l)", goal_cases)
  case 1
  show ?case by simp
next
  case (2 r l ret l1)
  have next_pos: "readPosition (ReadNext l) = readPosition l + 1" "input (ReadNext l) = input l"
    by (simp_all add: ReadNext_def Let_def)
  have at_end: "length (input l) \<le> readPosition l \<Longrightarrow> char (ReadNext l) = 0"
    by (simp add: ReadNext_def Let_def)
  from 2 next_pos at_end show ?case
    by (cases "readPosition l < length (input l)") auto
qed

declare readStringLoop.simps [simp del]

definition readString :: "Lexer \<Rightarrow> rune \<Rightarrow> string option \<times> Lexer" where
  "readString l r = readStringLoop r l []"

definition numberChar :: "unicode \<Rightarrow> rune \<Rightarrow> bool" where
  "numberChar U c \<longleftrightarrow> isDigit U c \<or> c = byte CHR ''.''"

function readNumberLoop :: "unicode \<Rightarrow> Lexer \<Rightarrow> rune list \<Rightarrow> string \<times> Lexer" where
  "readNumberLoop U l ret =
     (if numberChar U (char l) then
        (if char l = byte CHR ''.'' \<and> Peek l = byte CHR ''.'' then (encodeRunes ret, l)
         else readNumberLoop U (ReadNext l) (ret @ [char l]))
      else (encodeRunes ret, l))"
  by pat_completeness auto
termination
proof (relation "measure (\<lambda>(U, l, ret). (length (input l) - readPosition l)
        + (if numberChar U (char l) then 1 else 0))", goal_cases)
  case 1
  show ?case by simp
next
  case (2 U l ret)
  have zero: "\<not> numberChar U 0"
    by (simp add: numberChar_def isDigit_def byte_def)
  have next_pos: "readPosition (ReadNext l) = readPosition l + 1" "input (ReadNext l) = input l"
    by (simp_all add: ReadNext_def Let_def)
  have at_end: "length (input l) \<le> readPosition l \<Longrightarrow> char (ReadNext l) = 0"
    by (simp add: ReadNext_def Let_def)
  from 2 zero next_pos at_end show ?case
    by (cases "readPosition l < length (input l)") auto
qed

declare readNumberLoop.simps [simp del]

definition readNumber :: "unicode \<Rightarrow> Lexer \<Rightarrow> string \<times> Lexer" where
  "readNumber U l = readNumberLoop U (ReadNext l) [char l]"

text \<open>
  \<open>readRunesToken\<close>. When no case of its switch returns (also when \<open>readString\<close>
  fails), the lexer moves on and the \<open>UNKNOWN\<close> token gets the rune it has moved to.
\<close>

definition readRunesToken :: "unicode \<Rightarrow> Lexer \<Rightarrow> Token \<times> Lexer" where
  "readRunesToken U l =
     (let unknown = (\<lambda>l0. let l1 = ReadNext l0 in (MakeToken UNKNOWN (char l1), l1)) in
      if char l = 0 then (zeroToken\<lparr>Type := EOF, Literal := []\<rparr>, l)
      else if isDigit U (char l) then
        (let (literal, l1) = readNumber U l in (zeroToken\<lparr>Type := INT_LIT, Literal := literal\<rparr>, l1))
      else if isLetter U (char l) then
        (let (literal, l1) = readIdentifier U l in (zeroToken\<lparr>Type := IDENT, Literal := literal\<rparr>, l1))
      else if isQuote (char l) then
        (case readString l (char l) of
           (Some s, l1) \<Rightarrow> (zeroToken\<lparr>Type := STRING, Literal := s\<rparr>, l1)
         | (None, l1) \<Rightarrow> unknown l1)
      else unknown l)"

definition NextToken :: "unicode \<Rightarrow> Lexer \<Rightarrow> Token \<times> Lexer" where
  "NextToken U l =
     (let pos0 = getPosition l;
          pos = pos0\<lparr>Column := Column pos0 - 1\<rparr>;
          (skipped, l1) = skipWhitespace U l
      in
      if skipped then ((MakeToken SEPARATOR 32)\<lparr>Pos := pos\<rparr>, ReadNext l1)
      else
        (case tokenMap (char l1) of
           Some t \<Rightarrow> ((MakeToken t (char l1))\<lparr>Pos := pos\<rparr>, ReadNext l1)
         | None \<Rightarrow>
             (let (newToken, l2) = readRunesToken U l1 in (newToken\<lparr>Pos := pos\<rparr>, l2))))"

section \<open>The path parser\<close>

text \<open>
  The nodes of the AST. \<open>NilExpression\<close> is the nil \<open>Expression\<close> that the parse
  functions return on a failure; \<open>StringNode\<close> is the node type \<open>String\<close>.
\<close>

datatype Expression =
    NilExpression
  | QueryExpression "Expression list"
  | ExpressionStatement Token Expression
  | AccessorExpression Token Expression Expression
  | IndexExpression Token Expression Expression
  | Identifier Token
  | StringNode Token
  | Separator Token
  | Empty Token
  | Integer Token int

record Parser =
  lex :: Lexer
  errors :: "SyntaxError list"
  currentToken :: Token
  peekToken :: Token
  terminated :: bool

definition LOWEST :: nat where
  "LOWEST = 0"

definition INDEX :: nat where
  "INDEX = 1"

definition precedence :: "TokenType \<Rightarrow> nat" where
  "precedence t = (if t = LBRACKET then INDEX else if t = PERIOD then INDEX else LOWEST)"

definition nextToken :: "unicode \<Rightarrow> Parser \<Rightarrow> Parser" where
  "nextToken U p =
     (let (tok, l) = NextToken U (lex p) in
      p\<lparr>currentToken := peekToken p, peekToken := tok, lex := l\<rparr>)"

definition NewParser :: "unicode \<Rightarrow> Lexer \<Rightarrow> Parser" where
  "NewParser U l =
     nextToken U (nextToken U
       \<lparr>lex = ReadNext l, errors = [], currentToken = zeroToken, peekToken = zeroToken,
        terminated = False\<rparr>)"

definition currentPrecedence :: "Parser \<Rightarrow> nat" where
  "currentPrecedence p = precedence (Type (currentToken p))"

definition peekPrecedence :: "Parser \<Rightarrow> nat" where
  "peekPrecedence p = precedence (Type (peekToken p))"

definition isPeekToken :: "Parser \<Rightarrow> TokenType \<Rightarrow> bool" where
  "isPeekToken p t \<longleftrightarrow> Type (peekToken p) = t"

definition isCurrentToken :: "Parser \<Rightarrow> TokenType \<Rightarrow> bool" where
  "isCurrentToken p t \<longleftrightarrow> Type (currentToken p) = t"

definition expectPeek :: "unicode \<Rightarrow> Parser \<Rightarrow> TokenType \<Rightarrow> bool \<times> Parser" where
  "expectPeek U p t =
     (if isPeekToken p t then (True, nextToken U p)
      else (False, p\<lparr>errors := errors p @
              [ExpectedToken (Pos (currentToken p)) t (Type (peekToken p))]\<rparr>))"

text \<open>
  \<open>strconv.ParseInt(s, 10, 64)\<close>: an optional sign and decimal digits. It returns 0
  with a syntax error, and the nearest bound with a range error; the flag says whether
  there was an error.
\<close>

definition decimalDigit :: "char \<Rightarrow> bool" where
  "decimalDigit c \<longleftrightarrow> 48 \<le> byte c \<and> byte c \<le> 57"

definition decimalValue :: "string \<Rightarrow> int" where
  "decimalValue s = foldl (\<lambda>a c. 10 * a + (int (byte c) - 48)) 0 s"

definition ParseInt :: "string \<Rightarrow> int \<times> bool" where
  "ParseInt s =
     (let neg = (s \<noteq> [] \<and> hd s = CHR ''-'');
          digits = (if s \<noteq> [] \<and> (hd s = CHR ''+'' \<or> hd s = CHR ''-'') then tl s else s)
      in
      if digits = [] \<or> \<not> list_all decimalDigit digits then (0, True)
      else
        (let n = decimalValue digits in
         if \<not> neg \<and> n \<ge> 2 ^ 63 then (2 ^ 63 - 1, True)
         else if neg \<and> n > 2 ^ 63 then (- (2 ^ 63), True)
         else (if neg then - n else n, False)))"

definition parseIdentifier :: "Parser \<Rightarrow> Expression" where
  "parseIdentifier p = Identifier (currentToken p)"

definition parseString :: "Parser \<Rightarrow> Expression" where
  "parseString p = StringNode (currentToken p)"

definition parseInteger :: "Parser \<Rightarrow> Expression \<times> Parser" where
  "parseInteger p =
     (let (v, failed) = ParseInt (Literal (currentToken p));
          p' = (if failed
                then p\<lparr>errors := errors p @
                       [CouldNotParseInteger (Pos (currentToken p)) (Literal (currentToken p))]\<rparr>
                else p)
      in (Integer (currentToken p) v, p'))"

text \<open>
  The parse functions call each other, and nothing in their form bounds the depth of
  the calls, so they take fuel: the first argument bounds the depth, and \<open>None\<close> says
  that it did not suffice. \<open>infixLoop\<close> is the \<open>for\<close> loop of \<open>parseExpression\<close>.

  In \<open>parseGroup\<close> the test for an empty group asks the current token to be both
  \<open>LPAREN\<close> and \<open>RPAREN\<close>. In \<open>parseIndex\<close> the node's \<open>Token\<close> is read before the index
  is parsed, as the composite literal lists it; in \<open>parseAccessor\<close> it is read after the
  right side is parsed.
\<close>

function (sequential) parseExpression :: "nat \<Rightarrow> unicode \<Rightarrow> nat \<Rightarrow> Parser \<Rightarrow> (Expression \<times> Parser) option"
  and infixLoop :: "nat \<Rightarrow> unicode \<Rightarrow> nat \<Rightarrow> Expression \<Rightarrow> Parser \<Rightarrow> (Expression \<times> Parser) option"
  and parseGroup :: "nat \<Rightarrow> unicode \<Rightarrow> Parser \<Rightarrow> (Expression \<times> Parser) option"
  and parseIndex :: "nat \<Rightarrow> unicode \<Rightarrow> Expression \<Rightarrow> Parser \<Rightarrow> (Expression \<times> Parser) option"
  and parseAccessor :: "nat \<Rightarrow> unicode \<Rightarrow> Expression \<Rightarrow> Parser \<Rightarrow> (Expression \<times> Parser) option"
where
  "parseExpression 0 U prec p = None"
| "parseExpression (Suc n) U prec p =
     (let t = Type (currentToken p) in
      if t = IDENT then infixLoop n U prec (parseIdentifier p) p
      else if t = INT_LIT then (let (e, p') = parseInteger p in infixLoop n U prec e p')
      else if t = STRING then infixLoop n U prec (parseString p) p
      else if t = LPAREN then
        (case parseGroup n U p of
           None \<Rightarrow> None
         | Some (e, p') \<Rightarrow> infixLoop n U prec e p')
      else if terminated p then Some (NilExpression, p)
      else if t \<noteq> EOF then
        Some (NilExpression,
              p\<lparr>errors := errors p @ [InvalidCharacter (Pos (currentToken p)) t]\<rparr>)
      else Some (NilExpression, p))"
| "infixLoop 0 U prec leftExp p = None"
| "infixLoop (Suc n) U prec leftExp p =
     (if \<not> isPeekToken p SEPARATOR \<and> prec < peekPrecedence p then
        (let t = Type (peekToken p) in
         if t = PERIOD then
           (case parseAccessor n U leftExp (nextToken U p) of
              None \<Rightarrow> None
            | Some (e, p') \<Rightarrow> infixLoop n U prec e p')
         else if t = LBRACKET then
           (case parseIndex n U leftExp (nextToken U p) of
              None \<Rightarrow> None
            | Some (e, p') \<Rightarrow> infixLoop n U prec e p')
         else Some (leftExp, p))
      else Some (leftExp, p))"
| "parseGroup 0 U p = None"
| "parseGroup (Suc n) U p =
     (let p1 = nextToken U p in
      if Type (currentToken p1) = LPAREN \<and> isCurrentToken p1 RPAREN
      then Some (Empty (currentToken p1), p1)
      else
        (case parseExpression n U LOWEST p1 of
           None \<Rightarrow> None
         | Some (e, p2) \<Rightarrow>
             (let (ok, p3) = expectPeek U p2 RPAREN in
              if \<not> ok then Some (NilExpression, p3) else Some (e, p3))))"
| "parseIndex 0 U left p = None"
| "parseIndex (Suc n) U left p =
     (let p1 = nextToken U p; tok = currentToken p1 in
      case parseExpression n U LOWEST p1 of
        None \<Rightarrow> None
      | Some (e, p2) \<Rightarrow>
          (let (ok, p3) = expectPeek U p2 RBRACKET in
           if \<not> ok then Some (NilExpression, p3)
           else Some (IndexExpression tok left e, p3)))"
| "parseAccessor 0 U left p = None"
| "parseAccessor (Suc n) U left p =
     (let prec = currentPrecedence p; p1 = nextToken U p in
      case parseExpression n U prec p1 of
        None \<Rightarrow> None
      | Some (right, p2) \<Rightarrow> Some (AccessorExpression (currentToken p2) left right, p2))"
  by pat_completeness auto
termination
  by (relation "measure (case_sum (case_sum fst fst) (case_sum fst (case_sum fst fst)))")
    simp_all

declare parseExpression.simps [simp del] infixLoop.simps [simp del] parseGroup.simps [simp del]
  parseIndex.simps [simp del] parseAccessor.simps [simp del]

definition parseExpressionStatement ::
  "nat \<Rightarrow> unicode \<Rightarrow> Parser \<Rightarrow> (Expression \<times> Parser) option" where
  "parseExpressionStatement n U p =
     (let tok = currentToken p in
      case parseExpression n U LOWEST p of
        None \<Rightarrow> None
      | Some (e, p1) \<Rightarrow>
          if isPeekToken p1 SEPARATOR
          then Some (ExpressionStatement tok e, p1\<lparr>terminated := True\<rparr>)
          else Some (ExpressionStatement tok e, p1))"

text \<open>
  \<open>Run\<close>: the loop, then the result, which is the query, the count of what was
  consumed, and the error (\<open>None\<close> for nil). With an error the query is nil.
\<close>

fun RunLoop :: "nat \<Rightarrow> unicode \<Rightarrow> Parser \<Rightarrow> Expression list \<Rightarrow> (Expression list \<times> Parser) option" where
  "RunLoop 0 U p exps = None"
| "RunLoop (Suc n) U p exps =
     (if Type (currentToken p) \<noteq> EOF then
        (if terminated p then Some (exps, p)
         else
           (case parseExpressionStatement n U p of
              None \<Rightarrow> None
            | Some (e, p1) \<Rightarrow> RunLoop n U (nextToken U p1) (exps @ [e])))
      else Some (exps, p))"

declare RunLoop.simps [simp del]

definition Run :: "nat \<Rightarrow> unicode \<Rightarrow> Parser \<Rightarrow> (Expression \<times> nat \<times> error option) option" where
  "Run n U p =
     (case RunLoop n U p [] of
        None \<Rightarrow> None
      | Some (exps, p1) \<Rightarrow>
          if errors p1 \<noteq> []
          then Some (NilExpression, position (lex p1), Some (SyntaxErrors (errors p1)))
          else Some (QueryExpression exps, Offset (Pos (currentToken p1)), None))"

section \<open>The path compiler\<close>

text \<open>
  What a call can come to besides returning: the fuel of the parser did not suffice, or
  the call panicked.
\<close>

datatype 'a outcome = OutOfFuel | Panic panic | Return 'a

datatype recordPathType = recordPathIdent | recordPathInteger | recordPathString

datatype pathValue = StringValue string | Int64Value int

record recordPath =
  tokenType :: recordPathType
  pathValue :: pathValue

definition makeRecordPathIdent :: "string \<Rightarrow> recordPath" where
  "makeRecordPathIdent v = \<lparr>tokenType = recordPathIdent, pathValue = StringValue v\<rparr>"

definition makeRecordPathInteger :: "int \<Rightarrow> recordPath" where
  "makeRecordPathInteger v = \<lparr>tokenType = recordPathInteger, pathValue = Int64Value v\<rparr>"

definition makeRecordPathString :: "string \<Rightarrow> recordPath" where
  "makeRecordPathString v = \<lparr>tokenType = recordPathString, pathValue = StringValue v\<rparr>"

text \<open>
  \<open>tokenizeRecordPath\<close> parses \<open>stmt[offset:]\<close>, which panics when \<open>offset\<close> is
  beyond the end of the statement.
\<close>

definition tokenizeRecordPath ::
  "nat \<Rightarrow> unicode \<Rightarrow> string \<Rightarrow> nat \<Rightarrow> (Expression \<times> nat \<times> error option) outcome" where
  "tokenizeRecordPath n U stmt offset =
     (if offset > length stmt then Panic SliceBoundsOutOfRange
      else
        (case Run n U (NewParser U (NewLexer (drop offset stmt))) of
           None \<Rightarrow> OutOfFuel
         | Some r \<Rightarrow> Return r))"

text \<open>
  \<open>compileRecordPathAST\<close> returns the atoms and an error; with \<open>ErrTooMany\<close> it
  returns both.
\<close>

fun compileRecordPathAST :: "Expression \<Rightarrow> recordPath list \<times> error option" where
  "compileRecordPathAST (QueryExpression []) = ([], None)"
| "compileRecordPathAST (QueryExpression (e # es)) =
     (case compileRecordPathAST e of
        (result, Some err) \<Rightarrow> ([], Some err)
      | (result, None) \<Rightarrow>
          if length (e # es) > 1 then (result, Some ErrTooMany) else (result, None))"
| "compileRecordPathAST (ExpressionStatement tok e) = compileRecordPathAST e"
| "compileRecordPathAST (IndexExpression tok l i) =
     (case compileRecordPathAST l of
        (left, Some err) \<Rightarrow> ([], Some err)
      | (left, None) \<Rightarrow>
          (case compileRecordPathAST i of
             (index, Some err) \<Rightarrow> ([], Some err)
           | (index, None) \<Rightarrow> (left @ index, None)))"
| "compileRecordPathAST (AccessorExpression tok l r) =
     (case compileRecordPathAST l of
        (left, Some err) \<Rightarrow> ([], Some err)
      | (left, None) \<Rightarrow>
          (case compileRecordPathAST r of
             (index, Some err) \<Rightarrow> ([], Some err)
           | (index, None) \<Rightarrow> (left @ index, None)))"
| "compileRecordPathAST (Identifier tok) = ([makeRecordPathIdent (Literal tok)], None)"
| "compileRecordPathAST (Integer tok v) = ([makeRecordPathInteger v], None)"
| "compileRecordPathAST (StringNode tok) = ([makeRecordPathString (Literal tok)], None)"
| "compileRecordPathAST (Separator tok) = ([], None)"
| "compileRecordPathAST (Empty tok) = ([], None)"
| "compileRecordPathAST NilExpression = ([], Some UnexpectedExpression)"

definition parseRecordPath ::
  "nat \<Rightarrow> unicode \<Rightarrow> string \<Rightarrow> nat \<Rightarrow> (recordPath list \<times> int \<times> error option) outcome" where
  "parseRecordPath n U stmt offset =
     (case tokenizeRecordPath n U stmt offset of
        OutOfFuel \<Rightarrow> OutOfFuel
      | Panic p \<Rightarrow> Panic p
      | Return (ast, consumed, Some err) \<Rightarrow> Return ([], int consumed, Some err)
      | Return (ast, consumed, None) \<Rightarrow>
          (case compileRecordPathAST ast of
             (paths, Some err) \<Rightarrow> Return ([], - 1, Some err)
           | (paths, None) \<Rightarrow> Return (paths, int consumed, None)))"

section \<open>The statement compiler\<close>

definition AliasPrefix :: string where
  "AliasPrefix = ''_pfx_''"

definition AliasSeparator :: string where
  "AliasSeparator = ''_sfx_''"

definition indexOfRecordArgs :: "string \<Rightarrow> nat option" where
  "indexOfRecordArgs stmt = IndexRune stmt CHR ''&''"

definition translate :: "recordBinding \<Rightarrow> int \<Rightarrow> int" where
  "translate f expantion = expantion - (endPos f - startPos f)"

text \<open>
  \<open>strings.TrimSpace\<close>: white space is cut off at both ends, byte by byte while the
  bytes are ASCII; at a byte that is not, the rest is handed to the Unicode tables.
\<close>

definition asciiSpace :: "char \<Rightarrow> bool" where
  "asciiSpace c \<longleftrightarrow> byte c \<in> {9, 10, 11, 12, 13, 32}"

function trimRight :: "unicode \<Rightarrow> string \<Rightarrow> string" where
  "trimRight U s =
     (if s = [] then []
      else if byte (last s) \<ge> 128 then uTrimRightFunc U s
      else if asciiSpace (last s) then trimRight U (butlast s)
      else s)"
  by pat_completeness auto
termination
  by (relation "measure (\<lambda>(U, s). length s)") auto

declare trimRight.simps [simp del]

fun TrimSpace :: "unicode \<Rightarrow> string \<Rightarrow> string" where
  "TrimSpace U [] = []"
| "TrimSpace U (c # cs) =
     (if byte c \<ge> 128 then uTrimFunc U (c # cs)
      else if asciiSpace c then TrimSpace U cs
      else trimRight U (c # cs))"

text \<open>
  The loop of \<open>parseRecords\<close> that looks backwards from \<open>i - 1\<close> for the selector:
  \<open>Suc k\<close> positions are left, \<open>k\<close> is the one looked at.
\<close>

fun selectorLoop :: "unicode \<Rightarrow> string \<Rightarrow> nat \<Rightarrow> string \<Rightarrow> nat \<Rightarrow> error + (string \<times> nat)" where
  "selectorLoop U stmt 0 selector off = Inr (selector, off)"
| "selectorLoop U stmt (Suc k) selector off =
     (let c = byte (stmt ! k) in
      if IsSpace U c then
        (if length selector > 0 then Inr (selector, off)
         else selectorLoop U stmt k selector k)
      else if IsLetter U c then selectorLoop U stmt k (runeString (stmt ! k) @ selector) k
      else Inl ExpectedSelector)"

text \<open>The test \<open>err != nil && err != ErrTooMany\<close>, with the error when it holds.\<close>

definition fatal :: "error option \<Rightarrow> error option" where
  "fatal err = (case err of None \<Rightarrow> None | Some e \<Rightarrow> if e \<noteq> ErrTooMany then Some e else None)"

text \<open>
  The loop of \<open>parseRecords\<close> over \<open>i\<close>, with the slice \<open>records\<close>. The two paths that
  the body parses are only printed. (The source takes two results from
  \<open>parseRecordPath\<close>, which returns three; the paths and the error are meant.)
\<close>

function parseRecordsLoop ::
  "nat \<Rightarrow> unicode \<Rightarrow> string \<Rightarrow> nat \<Rightarrow> recordBinding list
    \<Rightarrow> (error + recordBinding list) outcome" where
  "parseRecordsLoop n U stmt i records =
     (if i < length stmt then
        (if stmt ! i \<noteq> CHR ''&'' then Return (Inr records)
         else
           (case parseRecordPath n U stmt (i + 1) of
              OutOfFuel \<Rightarrow> OutOfFuel
            | Panic p \<Rightarrow> Panic p
            | Return (entityPath, consumed, err) \<Rightarrow>
                (case fatal err of
                   Some e \<Rightarrow> Return (Inl e)
                 | None \<Rightarrow>
                  (case selectorLoop U stmt i [] 0 of
                     Inl e \<Rightarrow> Return (Inl e)
                   | Inr (selector, off) \<Rightarrow>
                       if ToLower U (TrimSpace U selector) \<noteq> ''as''
                       then Return (Inl (ExpectedASSelector selector))
                       else
                         (let prior = 0 in
                          case parseRecordPath n U stmt (prior + 1) of
                            OutOfFuel \<Rightarrow> OutOfFuel
                          | Panic p \<Rightarrow> Panic p
                          | Return (tablePath, consumed', err') \<Rightarrow>
                              (case fatal err' of
                                 Some e \<Rightarrow> Return (Inl e)
                               | None \<Rightarrow> parseRecordsLoop n U stmt (i + 1) records))))))
      else Return (Inr records))"
  by pat_completeness auto
termination
  by (relation "measure (\<lambda>(n, U, stmt, i, records). length stmt - i)") auto

declare parseRecordsLoop.simps [simp del]

definition parseRecords ::
  "nat \<Rightarrow> unicode \<Rightarrow> string \<Rightarrow> nat \<Rightarrow> (error + recordBinding list) outcome" where
  "parseRecords n U stmt offset = parseRecordsLoop n U stmt offset []"

definition constructFieldNameAlias :: "string \<Rightarrow> recordBinding \<Rightarrow> string list \<Rightarrow> string" where
  "constructFieldNameAlias nm rec intersection =
     (if recordBinding.prefix rec = [] then nm
      else
        (let alias = (if nm \<in> set intersection
                      then '' AS '' @ AliasPrefix @ recordBinding.prefix rec @ AliasSeparator @ nm
                      else [])
         in recordBinding.prefix rec @ ''.'' @ nm @ alias))"

text \<open>\<open>ReflectStruct.FieldNames\<close>: the keys of \<open>Fields\<close>, sorted.\<close>

definition FieldNames :: "ReflectStruct \<Rightarrow> string list" where
  "FieldNames r = sort (map fst (Fields r))"

text \<open>
  \<open>fieldIntersections\<close>: first the entities are grouped under each of their field
  names, then every group of more than one entity enters the field name under the name
  of each of its entities. The result maps an entity name to the field names it shares.
\<close>

definition lookupList :: "('k \<times> 'v list) list \<Rightarrow> 'k \<Rightarrow> 'v list" where
  "lookupList m k = (case map_of m k of None \<Rightarrow> [] | Some vs \<Rightarrow> vs)"

definition fieldIntersections :: "ReflectStruct list \<Rightarrow> (string \<times> string list) list" where
  "fieldIntersections ents =
     (if length ents \<le> 1 then []
      else
        (let groups =
               fold (\<lambda>entity m.
                       fold (\<lambda>field m'. mapSet m' field (lookupList m' field @ [entity]))
                            (FieldNames entity) m)
                    ents []
         in fold (\<lambda>(fieldName, group) results.
                    if length group \<le> 1 then results
                    else fold (\<lambda>entity res.
                                 mapSet res (ReflectStruct.Name entity)
                                   (List.insert fieldName (lookupList res (ReflectStruct.Name entity))))
                              group results)
                 groups []))"

definition Join :: "string list \<Rightarrow> string \<Rightarrow> string" where
  "Join elems sep = (case elems of [] \<Rightarrow> [] | e # es \<Rightarrow> e @ concat (map (\<lambda>x. sep @ x) es))"

text \<open>
  The names that \<open>expandRecords\<close> collects for a record that is not a wildcard; the
  first field that the entity does not have is the error.
\<close>

fun explicitNames ::
  "string list \<Rightarrow> recordBinding \<Rightarrow> ReflectStruct \<Rightarrow> string list \<Rightarrow> string list
    \<Rightarrow> error + string list" where
  "explicitNames [] rec entity shared names = Inr names"
| "explicitNames (nm # rest) rec entity shared names =
     (if map_of (Fields entity) nm = None
      then Inl (FieldNotFound nm (ReflectStruct.Name entity))
      else explicitNames rest rec entity shared (names @ [constructFieldNameAlias nm rec shared]))"

text \<open>
  \<open>expandRecords\<close>, its loop over the records with the statement and the running
  \<open>offset\<close>. The two slice expressions panic when a bound is out of range.
\<close>

fun expandRecordsLoop ::
  "string \<Rightarrow> int \<Rightarrow> recordBinding list \<Rightarrow> ReflectStruct list \<Rightarrow> (string \<times> string list) list
    \<Rightarrow> (error + string) outcome" where
  "expandRecordsLoop stmt offset [] ents intersections = Return (Inr stmt)"
| "expandRecordsLoop stmt offset (rec # rest) ents intersections =
     (case find (\<lambda>entity. recordBinding.name rec = ReflectStruct.Name entity) ents of
        None \<Rightarrow> Return (Inl (NoEntityFound (recordBinding.name rec)))
      | Some entity \<Rightarrow>
          (let entityInter = lookupList intersections (ReflectStruct.Name entity) in
           case (if wildcard rec
                 then Inr (map (\<lambda>nm. constructFieldNameAlias nm rec entityInter)
                             (map fst (Fields entity)))
                 else explicitNames (fieldSet rec) rec entity entityInter []) of
             Inl err \<Rightarrow> Return (Inl err)
           | Inr names \<Rightarrow>
               if length names = 0 then Return (Inl (NoFieldsFound (ReflectStruct.Name entity)))
               else
                 (let recordList = Join (sort names) '', '';
                      lo = offset + startPos rec;
                      hi = offset + endPos rec
                  in
                  if lo < 0 \<or> lo > int (length stmt) \<or> hi < 0 \<or> hi > int (length stmt)
                  then Panic SliceBoundsOutOfRange
                  else
                    expandRecordsLoop
                      (take (nat lo) stmt @ recordList @ drop (nat hi) stmt)
                      (offset + translate rec (int (length recordList)))
                      rest ents intersections)))"

definition expandRecords ::
  "string \<Rightarrow> recordBinding list \<Rightarrow> ReflectStruct list \<Rightarrow> (string \<times> string list) list
    \<Rightarrow> (error + string) outcome" where
  "expandRecords stmt records ents intersections =
     expandRecordsLoop stmt 0 records ents intersections"

definition compileStatement ::
  "nat \<Rightarrow> unicode \<Rightarrow> string \<Rightarrow> ReflectStruct list
    \<Rightarrow> (error + (string \<times> recordBinding list)) outcome" where
  "compileStatement n U stmt ents =
     (case indexOfRecordArgs stmt of
        None \<Rightarrow> Return (Inr (stmt, []))
      | Some offset \<Rightarrow>
          (case parseRecords n U stmt offset of
             OutOfFuel \<Rightarrow> OutOfFuel
           | Panic p \<Rightarrow> Panic p
           | Return (Inl err) \<Rightarrow> Return (Inl err)
           | Return (Inr flds) \<Rightarrow>
               (case expandRecords stmt flds ents (fieldIntersections ents) of
                  OutOfFuel \<Rightarrow> OutOfFuel
                | Panic p \<Rightarrow> Panic p
                | Return (Inl err) \<Rightarrow> Return (Inl err)
                | Return (Inr stmt') \<Rightarrow> Return (Inr (stmt', flds)))))"

section \<open>The querier\<close>

text \<open>
  A \<open>Querier\<close> holds pointers to its two caches and a hook. The caches are objects on
  the heap that a \<open>Query\<close> made by the querier shares, so a pointer is an address here
  (\<open>None\<close> is nil, as in the zero \<open>Query\<close>) and the functions that read or write a
  cache take it as an argument and return it. A hook is a callback; it is known by a
  number, and \<open>None\<close> is the nil function.
\<close>

type_synonym Hook = nat
type_synonym address = nat

record Querier =
  reflect :: address
  hook :: "Hook option"
  stmtCache :: address

record reflectSlice =
  slice :: GoValue
  element :: ReflectStruct

text \<open>
  \<open>executePlan\<close> is a function value: nil, the method \<open>defaultScan\<close>, or one of the
  three closures that \<open>ForOne\<close> and \<open>ForMany\<close> build, which call \<open>structScan\<close>,
  \<open>mapScan\<close> and \<open>sliceStructScan\<close>, each with the variables it captures. The closure for a map captures \<open>entities\<close> and converts \<open>entities[0]\<close> to
  \<open>ReflectValue\<close> only when it is called.
\<close>

datatype plan =
    callDefaultScan
  | callStructScan "ReflectStruct list"
  | callMapScan "ReflectInfo list"
  | callSliceStructScan "reflectSlice list"

record Query =
  entities :: "ReflectInfo list"
  hook :: "Hook option"
  executePlan :: "plan option"
  stmtCache :: "address option"
  reflect :: "address option"

definition zeroQuery :: Query where
  "zeroQuery =
     \<lparr>entities = [], hook = None, executePlan = None, stmtCache = None, reflect = None\<rparr>"

text \<open>
  The loop of \<open>reflectValues\<close>: \<open>i\<close> is the loop index, \<open>ents\<close> holds
  \<open>entities[0..i)\<close>, \<open>values\<close> the destinations from \<open>i\<close> on. The reflect cache is
  written by every destination that is reflected, also when a later one fails.
\<close>

fun reflectValuesLoop ::
  "unicode \<Rightarrow> ReflectCache \<Rightarrow> GoValue list \<Rightarrow> nat \<Rightarrow> ReflectInfo list
    \<Rightarrow> panic + ((error + ReflectInfo list) \<times> ReflectCache)" where
  "reflectValuesLoop U cache [] i ents = Inr (Inr ents, cache)"
| "reflectValuesLoop U cache (v # rest) i ents =
     (case cacheReflect U cache v of
        Inl p \<Rightarrow> Inl p
      | Inr (Inl err, cache') \<Rightarrow> Inr (Inl (WrapReflect err), cache')
      | Inr (Inr ent, cache') \<Rightarrow>
          (let ents' = ents @ [ent] in
           if i > 1 \<and> InfoKind (ents' ! (i - 1)) \<noteq> InfoKind (ents' ! i)
           then Inr (Inl (ExpectedSameKind (InfoKind (ents' ! (i - 1))) (InfoKind (ents' ! i))),
                     cache')
           else reflectValuesLoop U cache' rest (i + 1) ents'))"

definition reflectValues ::
  "unicode \<Rightarrow> ReflectCache \<Rightarrow> GoValue list
    \<Rightarrow> panic + ((error + ReflectInfo list) \<times> ReflectCache)" where
  "reflectValues U cache values = reflectValuesLoop U cache values 0 []"

text \<open>The conversion \<open>entity.(sreflect.ReflectStruct)\<close> of every entity; it panics on a
  \<open>ReflectValue\<close>.\<close>

fun asStructs :: "ReflectInfo list \<Rightarrow> panic + ReflectStruct list" where
  "asStructs [] = Inr []"
| "asStructs (AsValue v # rest) = Inl InterfaceConversion"
| "asStructs (AsStruct r # rest) =
     (case asStructs rest of Inl p \<Rightarrow> Inl p | Inr rs \<Rightarrow> Inr (r # rs))"

text \<open>
  \<open>ForOne\<close> returns a \<open>Query\<close> and an error (\<open>None\<close> is the nil error), with the
  reflect cache as it has left it.
\<close>

definition ForOne ::
  "unicode \<Rightarrow> Querier \<Rightarrow> ReflectCache \<Rightarrow> GoValue list
    \<Rightarrow> panic + ((Query \<times> error option) \<times> ReflectCache)" where
  "ForOne U q cache values =
     (case reflectValues U cache values of
        Inl p \<Rightarrow> Inl p
      | Inr (Inl err, cache') \<Rightarrow> Inr ((zeroQuery, None), cache')
      | Inr (Inr ents, cache') \<Rightarrow>
          (let query = \<lparr>entities = ents, hook = Querier.hook q, executePlan = None,
                        stmtCache = Some (Querier.stmtCache q),
                        reflect = Some (Querier.reflect q)\<rparr>
           in
           if length values = 0
           then Inr ((query\<lparr>executePlan := Some callDefaultScan\<rparr>, None), cache')
           else if InfoKind (ents ! 0) = Struct then
             (case asStructs ents of
                Inl p \<Rightarrow> Inl p
              | Inr structs \<Rightarrow>
                  Inr ((query\<lparr>executePlan := Some (callStructScan structs)\<rparr>, None), cache'))
           else if InfoKind (ents ! 0) = Map then
             (if length values > 1
              then Inr ((zeroQuery, Some (ExpectedOneMap (length values))), cache')
              else Inr ((query\<lparr>executePlan := Some (callMapScan ents)\<rparr>, None), cache'))
           else Inr ((query\<lparr>executePlan := Some callDefaultScan\<rparr>, None), cache')))"

text \<open>
  The loop of \<open>ForMany\<close> over the entities. \<open>reflect.New(base)\<close> is a pointer to a new
  variable of the slice's element type.
\<close>

fun ForManyLoop ::
  "unicode \<Rightarrow> ReflectCache \<Rightarrow> ReflectInfo list \<Rightarrow> reflectSlice list
    \<Rightarrow> panic + ((error + reflectSlice list) \<times> ReflectCache)" where
  "ForManyLoop U cache [] refSlice = Inr (Inr refSlice, cache)"
| "ForManyLoop U cache (entity # rest) refSlice =
     (if InfoKind entity = Slice then
        (case entity of
           AsStruct r \<Rightarrow> Inl InterfaceConversion
         | AsValue refValue \<Rightarrow>
             (case TypeOf refValue of
                None \<Rightarrow> Inl TypeOfZeroValue
              | Some t \<Rightarrow>
                  (case Elem t of
                     None \<Rightarrow> Inl ElemOfInvalidType
                   | Some base \<Rightarrow>
                       (case cacheReflect U cache (PtrTo (Val base)) of
                          Inl p \<Rightarrow> Inl p
                        | Inr (Inl err, cache') \<Rightarrow>
                            Inr (Inl (ExpectedSlice (InfoKind entity)), cache')
                        | Inr (Inr (AsValue v), cache') \<Rightarrow>
                            Inr (Inl ExpectedSliceOfStruct, cache')
                        | Inr (Inr (AsStruct elementRefStruct), cache') \<Rightarrow>
                            ForManyLoop U cache' rest
                              (refSlice @ [\<lparr>slice = refValue, element = elementRefStruct\<rparr>])))))
      else Inr (Inl (ExpectedSlice (InfoKind entity)), cache))"

definition ForMany ::
  "unicode \<Rightarrow> Querier \<Rightarrow> ReflectCache \<Rightarrow> GoValue list
    \<Rightarrow> panic + ((Query \<times> error option) \<times> ReflectCache)" where
  "ForMany U q cache values =
     (if length values = 0
      then Inr ((zeroQuery, Some ExpectedAtLeastOneArgument), cache)
      else
        (case reflectValues U cache values of
           Inl p \<Rightarrow> Inl p
         | Inr (Inl err, cache') \<Rightarrow> Inr ((zeroQuery, None), cache')
         | Inr (Inr ents, cache') \<Rightarrow>
             (let query = \<lparr>entities = ents, hook = Querier.hook q, executePlan = None,
                           stmtCache = Some (Querier.stmtCache q),
                           reflect = Some (Querier.reflect q)\<rparr>
              in
              case ForManyLoop U cache' ents [] of
                Inl p \<Rightarrow> Inl p
              | Inr (Inl err, cache'') \<Rightarrow> Inr ((zeroQuery, Some err), cache'')
              | Inr (Inr refSlice, cache'') \<Rightarrow>
                  Inr ((query\<lparr>executePlan := Some (callSliceStructScan refSlice)\<rparr>, None),
                       cache''))))"




section \<open>Running a query\<close>

subsection \<open>The driver and the statement cache\<close>

text \<open>
  The driver is outside the repository; the model takes it as it finds it. A
  transaction answers a statement and its arguments with an error or with rows. Rows
  have column types (or an error for them), the rows that \<open>Next\<close> delivers, each
  with what \<open>Scan\<close> returns for the targets it is given, and the error that \<open>Err\<close>
  reports at the end. What \<open>Scan\<close> stores in the targets is not modelled.
\<close>

record ColumnType =
  ColumnName :: string
  DatabaseTypeName :: string

record Rows =
  ColumnTypes :: "error + ColumnType list"
  scans :: "(GoValue list \<Rightarrow> error option) list"
  rowsErr :: "error option"

type_synonym 'a Tx = "string \<Rightarrow> 'a list \<Rightarrow> error + Rows"

text \<open>
  A cached statement, with the fields \<open>stmt\<close> and \<open>fields\<close> of the source as
  \<open>stmtText\<close> and \<open>stmtFields\<close>, and the cache, a Go map under a mutex.
\<close>

record cachedStmt =
  stmtText :: string
  stmtFields :: "recordBinding list"

type_synonym statementCache = "(string \<times> cachedStmt) list"

definition Get :: "statementCache \<Rightarrow> string \<Rightarrow> cachedStmt option" where
  "Get c s = map_of c s"

definition Set :: "statementCache \<Rightarrow> string \<Rightarrow> cachedStmt \<Rightarrow> statementCache" where
  "Set c s computed = mapSet c s computed"

subsection \<open>The scans\<close>

text \<open>
  \<open>Query.query\<close>: the hook, if there is one, sees the statement before the driver
  does. The second component is what the hook has been called with.
\<close>

definition query ::
  "Query \<Rightarrow> 'a Tx \<Rightarrow> string \<Rightarrow> 'a list \<Rightarrow> (error + (Rows \<times> ColumnType list)) \<times> string list" where
  "query q tx s args =
     (let hooked = (if Query.hook q \<noteq> None then [s] else []) in
      case tx s args of
        Inl err \<Rightarrow> (Inl err, hooked)
      | Inr rows \<Rightarrow>
          (case ColumnTypes rows of
             Inl err \<Rightarrow> (Inl err, hooked)
           | Inr columns \<Rightarrow> (Inr (rows, columns), hooked)))"

fun scanRows :: "(GoValue list \<Rightarrow> error option) list \<Rightarrow> GoValue list \<Rightarrow> error option" where
  "scanRows [] args = None"
| "scanRows (scan # rest) args =
     (case scan args of Some err \<Rightarrow> Some err | None \<Rightarrow> scanRows rest args)"

definition scanOne :: "Rows \<Rightarrow> GoValue list \<Rightarrow> error option" where
  "scanOne rows args =
     (case scanRows (scans rows) args of Some err \<Rightarrow> Some err | None \<Rightarrow> rowsErr rows)"

fun entityNames :: "ReflectInfo list \<Rightarrow> string list" where
  "entityNames [] = []"
| "entityNames (AsStruct rs # rest) = ReflectStruct.Name rs # entityNames rest"
| "entityNames (AsValue v # rest) = entityNames rest"

text \<open>
  A struct field is exported when its name starts with an upper-case letter. The
  \<open>reflect.Value\<close> of a field that is not exported cannot be turned into an
  interface: \<open>Interface\<close> panics.
\<close>

definition IsExported :: "unicode \<Rightarrow> string \<Rightarrow> bool" where
  "IsExported U nm =
     (case nm of
        [] \<Rightarrow> False
      | c # cs \<Rightarrow> if byte c < 128 then 65 \<le> byte c \<and> byte c \<le> 90 else uIsExported U nm)"

text \<open>
  \<open>structMapping\<close> for one column: the alias is taken apart, then the first entity
  that has the column and, for an alias, a binding with the alias's prefix, gives the
  target, the address of its field.
\<close>

definition bindingFound :: "recordBinding list \<Rightarrow> ReflectStruct \<Rightarrow> string \<Rightarrow> bool" where
  "bindingFound flds entity pre \<longleftrightarrow>
     (\<exists>binding\<in>set flds.
        recordBinding.name binding = ReflectStruct.Name entity
          \<and> recordBinding.prefix binding = pre)"

fun findTarget ::
  "unicode \<Rightarrow> ReflectStruct list \<Rightarrow> recordBinding list \<Rightarrow> string \<Rightarrow> string
    \<Rightarrow> panic + GoValue option" where
  "findTarget U [] flds pre columnName = Inr None"
| "findTarget U (entity # rest) flds pre columnName =
     (case map_of (Fields entity) columnName of
        None \<Rightarrow> findTarget U rest flds pre columnName
      | Some field \<Rightarrow>
          if pre \<noteq> [] \<and> \<not> bindingFound flds entity pre
          then findTarget U rest flds pre columnName
          else if \<not> IsExported U (ReflectField.Name field) then Inl InterfaceOfUnexported
          else Inr (Some (PtrTo (ReflectField.Value field))))"

fun structMappingLoop ::
  "unicode \<Rightarrow> Query \<Rightarrow> ColumnType list \<Rightarrow> ReflectStruct list \<Rightarrow> recordBinding list
    \<Rightarrow> GoValue list \<Rightarrow> panic + (error + GoValue list)" where
  "structMappingLoop U q [] ents flds columnar = Inr (Inr columnar)"
| "structMappingLoop U q (col # rest) ents flds columnar =
     (let parts = Split (drop (length AliasPrefix) (ColumnName col)) AliasSeparator;
          aliased = HasPrefix (ColumnName col) AliasPrefix
      in
      if aliased \<and> length parts < 2 then Inl IndexOutOfRange
      else
        (let pre = (if aliased then parts ! 0 else []);
             columnName = (if aliased then parts ! 1 else ColumnName col)
         in
         case findTarget U ents flds pre columnName of
           Inl p \<Rightarrow> Inl p
         | Inr None \<Rightarrow>
             Inr (Inl (MissingDestination (ColumnName col) (entityNames (entities q))))
         | Inr (Some target) \<Rightarrow> structMappingLoop U q rest ents flds (columnar @ [target])))"

definition structMapping ::
  "unicode \<Rightarrow> Query \<Rightarrow> ColumnType list \<Rightarrow> ReflectStruct list \<Rightarrow> recordBinding list
    \<Rightarrow> panic + (error + GoValue list)" where
  "structMapping U q columns ents flds = structMappingLoop U q columns ents flds []"

text \<open>
  \<open>Query.structScan\<close>, with the statement cache that \<open>q.stmtCache\<close> points to. It
  returns its error, the cache, and what the hook has seen.
\<close>

definition structScan ::
  "nat \<Rightarrow> unicode \<Rightarrow> Query \<Rightarrow> statementCache \<Rightarrow> 'a Tx \<Rightarrow> string \<Rightarrow> 'a list
    \<Rightarrow> ReflectStruct list \<Rightarrow> (error option \<times> statementCache \<times> string list) outcome" where
  "structScan n U q c tx s args ents =
     (if Query.stmtCache q = None then Panic NilPointerDereference
      else
        (case (case Get c s of
                 Some cached \<Rightarrow> Return (Inr (stmtText cached, stmtFields cached))
               | None \<Rightarrow> compileStatement n U s ents) of
           OutOfFuel \<Rightarrow> OutOfFuel
         | Panic p \<Rightarrow> Panic p
         | Return (Inl err) \<Rightarrow> Return (Some err, c, [])
         | Return (Inr (compiledStmt, flds)) \<Rightarrow>
             (case query q tx compiledStmt args of
                (Inl err, hooked) \<Rightarrow> Return (Some err, c, hooked)
              | (Inr (rows, columns), hooked) \<Rightarrow>
                  (case structMapping U q columns ents flds of
                     Inl p \<Rightarrow> Panic p
                   | Inr (Inl err) \<Rightarrow> Return (Some err, c, hooked)
                   | Inr (Inr columnar) \<Rightarrow>
                       (case scanOne rows columnar of
                          Some err \<Rightarrow> Return (Some err, c, hooked)
                        | None \<Rightarrow>
                            Return (None,
                                    if s \<noteq> compiledStmt
                                    then Set c s \<lparr>stmtText = compiledStmt, stmtFields = flds\<rparr>
                                    else c,
                                    hooked))))))"

text \<open>
  \<open>Query.sliceStructScan\<close>. For every row it reflects a new variable of each
  element type, through the reflect cache that \<open>q.reflect\<close> points to; the targets
  come from \<open>elements\<close> all the same. The statement cache is passed to it as to
  \<open>structScan\<close>, and it has no use for it.
\<close>

fun reflectElements ::
  "unicode \<Rightarrow> Query \<Rightarrow> ReflectCache \<Rightarrow> ReflectStruct list
    \<Rightarrow> panic + (error option \<times> ReflectCache)" where
  "reflectElements U q rc [] = Inr (None, rc)"
| "reflectElements U q rc (elem # rest) =
     (case TypeOf (ReflectStruct.Value elem) of
        None \<Rightarrow> Inl TypeOfZeroValue
      | Some t \<Rightarrow>
          if Query.reflect q = None then Inl NilPointerDereference
          else
            (case cacheReflect U rc (PtrTo (Val t)) of
               Inl p \<Rightarrow> Inl p
             | Inr (Inl err, rc') \<Rightarrow> Inr (Some err, rc')
             | Inr (Inr (AsValue v), rc') \<Rightarrow> Inr (Some (ExpectedStruct (KindOf v)), rc')
             | Inr (Inr (AsStruct refStruct), rc') \<Rightarrow> reflectElements U q rc' rest))"

fun sliceRows ::
  "unicode \<Rightarrow> Query \<Rightarrow> ReflectCache \<Rightarrow> (GoValue list \<Rightarrow> error option) list
    \<Rightarrow> ColumnType list \<Rightarrow> ReflectStruct list \<Rightarrow> recordBinding list
    \<Rightarrow> panic + (error option \<times> ReflectCache)" where
  "sliceRows U q rc [] columns elements flds = Inr (None, rc)"
| "sliceRows U q rc (scan # rest) columns elements flds =
     (case reflectElements U q rc elements of
        Inl p \<Rightarrow> Inl p
      | Inr (Some err, rc') \<Rightarrow> Inr (Some err, rc')
      | Inr (None, rc') \<Rightarrow>
          (case structMapping U q columns elements flds of
             Inl p \<Rightarrow> Inl p
           | Inr (Inl err) \<Rightarrow> Inr (Some err, rc')
           | Inr (Inr columnar) \<Rightarrow>
               (case scan columnar of
                  Some err \<Rightarrow> Inr (Some err, rc')
                | None \<Rightarrow> sliceRows U q rc' rest columns elements flds)))"

definition sliceStructScan ::
  "nat \<Rightarrow> unicode \<Rightarrow> Query \<Rightarrow> statementCache \<Rightarrow> ReflectCache \<Rightarrow> 'a Tx \<Rightarrow> string \<Rightarrow> 'a list
    \<Rightarrow> reflectSlice list
    \<Rightarrow> (error option \<times> statementCache \<times> ReflectCache \<times> string list) outcome" where
  "sliceStructScan n U q c rc tx s args slices =
     (let elements = map element slices in
      case compileStatement n U s elements of
        OutOfFuel \<Rightarrow> OutOfFuel
      | Panic p \<Rightarrow> Panic p
      | Return (Inl err) \<Rightarrow> Return (Some err, c, rc, [])
      | Return (Inr (compiledStmt, flds)) \<Rightarrow>
          (case query q tx compiledStmt args of
             (Inl err, hooked) \<Rightarrow> Return (Some err, c, rc, hooked)
           | (Inr (rows, columns), hooked) \<Rightarrow>
               (case sliceRows U q rc (scans rows) columns elements flds of
                  Inl p \<Rightarrow> Panic p
                | Inr (Some err, rc') \<Rightarrow> Return (Some err, c, rc', hooked)
                | Inr (None, rc') \<Rightarrow> Return (rowsErr rows, c, rc', hooked))))"

text \<open>
  What the documentation of the package says of a field's tag, \<open>name[,omitempty]\<close>, in
  terms of the tag itself and not of \<open>parseTag\<close>. \<open>tagParts\<close> are the comma-separated
  parts of the tag. A field is \<open>wellTagged\<close> when its tag is not empty and has one part,
  or two of which the second, in lower case, is \<open>omitempty\<close>. \<open>tagColumn\<close> is the
  column of the field: the first part of its tag, or the field's name in lower case
  when that part is empty. \<open>tagEntry\<close> is the entry of the field in the descriptor.
\<close>

definition tagParts :: "StructField \<Rightarrow> string list" where
  "tagParts f = Split (TagGet f) '',''"

definition wellTagged :: "unicode \<Rightarrow> StructField \<Rightarrow> bool" where
  "wellTagged U f \<longleftrightarrow>
     TagGet f \<noteq> [] \<and>
     (length (tagParts f) = 1 \<or>
      length (tagParts f) = 2 \<and> ToLower U (tagParts f ! 1) = ''omitempty'')"

definition tagColumn :: "unicode \<Rightarrow> StructField \<Rightarrow> string" where
  "tagColumn U f =
     (if hd (tagParts f) = [] then ToLower U (fieldName f) else hd (tagParts f))"

definition tagEntry :: "unicode \<Rightarrow> StructField \<Rightarrow> string \<times> ReflectField" where
  "tagEntry U f =
     (tagColumn U f,
      \<lparr>ReflectField.Name = fieldName f,
       Tag = \<lparr>ReflectTag.Name = hd (tagParts f), OmitEmpty = (length (tagParts f) = 2)\<rparr>,
       Value = Val (fieldType f)\<rparr>)"

subsection \<open>The types of the tests\<close>

text \<open>
  \<open>Person\<close> and \<open>Location\<close> as the tests declare them, what \<open>Reflect\<close> makes of
  them, and a querier.
\<close>

definition Person :: GoType where
  "Person = StructT ''Person''
     [StructField ''Name'' (Some ''name'') (Basic String),
      StructField ''Age'' (Some ''age'') (Basic IntKind)]"

definition Location :: GoType where
  "Location = StructT ''Location'' [StructField ''City'' (Some ''city'') (Basic String)]"

definition columnField :: "string \<Rightarrow> string \<Rightarrow> GoType \<Rightarrow> string \<times> ReflectField" where
  "columnField col fname t =
     (col, \<lparr>ReflectField.Name = fname,
            Tag = \<lparr>ReflectTag.Name = col, OmitEmpty = False\<rparr>, Value = Val t\<rparr>)"

definition personStruct :: ReflectStruct where
  "personStruct =
     \<lparr>ReflectStruct.Name = ''Person'',
      Fields = [columnField ''name'' ''Name'' (Basic String),
                columnField ''age'' ''Age'' (Basic IntKind)],
      Value = Val Person\<rparr>"

definition locationStruct :: ReflectStruct where
  "locationStruct =
     \<lparr>ReflectStruct.Name = ''Location'',
      Fields = [columnField ''city'' ''City'' (Basic String)],
      Value = Val Location\<rparr>"

definition exampleQuerier :: Querier where
  "exampleQuerier = \<lparr>Querier.reflect = 1, Querier.hook = None, Querier.stmtCache = 2\<rparr>"

subsection \<open>The driver of the tests\<close>

text \<open>
  A transaction on the table \<open>test\<close> of the tests: it answers every statement with
  the columns \<open>name\<close> and \<open>age\<close> and two rows that scan.
\<close>

definition testRows :: Rows where
  "testRows =
     \<lparr>ColumnTypes = Inr [\<lparr>ColumnName = ''name'', DatabaseTypeName = ''TEXT''\<rparr>,
                          \<lparr>ColumnName = ''age'', DatabaseTypeName = ''INTEGER''\<rparr>],
      scans = [\<lambda>targets. None, \<lambda>targets. None],
      rowsErr = None\<rparr>"

definition testTx :: "'a Tx" where
  "testTx s args = Inr testRows"

definition personQuery :: Query where
  "personQuery =
     \<lparr>entities = [AsStruct personStruct], hook = Some 0,
      executePlan = Some (callStructScan [personStruct]),
      stmtCache = Some 2, reflect = Some 1\<rparr>"

definition personsQuery :: Query where
  "personsQuery =
     \<lparr>entities = [AsValue (Val (SliceT Person))], hook = Some 0,
      executePlan =
        Some (callSliceStructScan [\<lparr>slice = Val (SliceT Person), element = personStruct\<rparr>]),
      stmtCache = Some 2, reflect = Some 1\<rparr>"

section \<open>Properties of the named-parameter scanner\<close>

subsection \<open>The sort\<close>

lemma insertLess_snoc:
  "insertLess (zs @ [z]) x = (if name x < name z then insertLess zs x @ [z] else zs @ [z, x])"
  by (subst insertLess.simps) simp

lemma insertLess_Nil: "insertLess [] x = [x]"
  by (subst insertLess.simps) simp

lemma set_insertLess: "set (insertLess ys x) = insert x (set ys)"
  by (induction ys rule: rev_induct) (auto simp: insertLess_snoc insertLess_Nil)


lemma sorted_insertLess:
  "sorted (map name ys) \<Longrightarrow> sorted (map name (insertLess ys x))"
proof (induction ys rule: rev_induct)
  case Nil
  then show ?case by (simp add: insertLess_Nil)
next
  case (snoc z zs)
  from snoc.prems have zs: "sorted (map name zs)" and le: "\<forall>y\<in>set zs. name y \<le> name z"
    by (auto simp: sorted_append)
  show ?case
  proof (cases "name x < name z")
    case True
    with snoc.IH [OF zs] le show ?thesis
      by (auto simp: insertLess_snoc sorted_append set_insertLess)
  next
    case False
    with snoc.prems le show ?thesis
      by (fastforce simp: insertLess_snoc sorted_append)
  qed
qed

lemma sorted_foldl_insertLess:
  "sorted (map name acc) \<Longrightarrow> sorted (map name (foldl insertLess acc xs))"
  by (induction xs arbitrary: acc) (simp_all add: sorted_insertLess)


lemma sorted_sortSlice: "sorted (map name (sortSlice xs))"
  by (simp add: sortSlice_def sorted_foldl_insertLess)










lemmas scan_defs =
  parseNames_def parseNamesLoop.simps consumeName.simps prefixes_def Let_def
  isNameTerminator_def alphaNumeric_def numeric_def IsLetter_def IsDigit_def IsNumber_def
  IsSpace_def byte_def runeString_def indexOfInputNamedArgs_def sortSlice_def
  insertLess.simps less_char_def

text \<open>
  Claim C2. For the statement of the test, \<open>parseNames\<close> returns exactly the four
  bindings \<open>?42\<close>, \<open>$id\<close>, \<open>:name\<close>, \<open>@table\<close> in that order; and whenever
  \<open>parseNames\<close> returns bindings, for any statement and offset, their names are in
  ascending lexicographic order. (The model is a function, so the same statement
  always gives the same list.)
\<close>

theorem parseNames_sorted:
  "parseNames U ''SELECT :name FROM @table WHERE $id=1 AND ?42=2 AND ?=3;'' 0 =
     Inr [\<lparr>prefix = CHR ''?'', name = ''42''\<rparr>, \<lparr>prefix = CHR ''$'', name = ''id''\<rparr>,
          \<lparr>prefix = CHR '':'', name = ''name''\<rparr>, \<lparr>prefix = CHR ''@'', name = ''table''\<rparr>]
   \<and> (\<forall>stmt offset names.
         parseNames U stmt offset = Inr names \<longrightarrow> sorted (map name names))"
proof (intro conjI allI impI)
  show "parseNames U ''SELECT :name FROM @table WHERE $id=1 AND ?42=2 AND ?=3;'' 0 =
     Inr [\<lparr>prefix = CHR ''?'', name = ''42''\<rparr>, \<lparr>prefix = CHR ''$'', name = ''id''\<rparr>,
          \<lparr>prefix = CHR '':'', name = ''name''\<rparr>, \<lparr>prefix = CHR ''@'', name = ''table''\<rparr>]"
    by (simp add: scan_defs)
next
  fix stmt offset names
  assume "parseNames U stmt offset = Inr names"
  then obtain found where "names = sortSlice found"
    by (auto simp: parseNames_def split: sum.splits)
  then show "sorted (map name names)"
    by (simp add: sorted_sortSlice)
qed

theorem parseNames_sorted_witness:
  "parseNames latin1 ''WHERE a=:b AND c=:a'' 0 =
     Inr [\<lparr>prefix = CHR '':'', name = ''a''\<rparr>, \<lparr>prefix = CHR '':'', name = ''b''\<rparr>]
   \<and> sorted (map name [\<lparr>prefix = CHR '':'', name = ''a''\<rparr>, \<lparr>prefix = CHR '':'', name = ''b''\<rparr>])"
proof -
  have run: "parseNames latin1 ''WHERE a=:b AND c=:a'' 0 =
     Inr [\<lparr>prefix = CHR '':'', name = ''a''\<rparr>, \<lparr>prefix = CHR '':'', name = ''b''\<rparr>]"
    by (simp add: scan_defs)
  with parseNames_sorted [of latin1] show ?thesis
    by blast
qed




section \<open>Properties of the reflector and of the querier\<close>

lemmas reflect_defs =
  Reflect_def parseTag_def TagGet_def Split_def ToLower_def asciiLower_def byte_def
  mapSet_def Let_def cacheReflect_def mustBe_def reflectValues_def

lemmas example_defs =
  Person_def Location_def personStruct_def locationStruct_def columnField_def
  exampleQuerier_def latin1_def

lemma mapSet_keys: "fst ` set (mapSet m k v) = insert k (fst ` set m)"
  by (auto simp: mapSet_def image_iff split: if_splits prod.splits) force+

lemma map_of_replace:
  "map_of (map (\<lambda>(k', v'). if k' = k then (k', v) else (k', v')) m) x =
     (if x = k \<and> k \<in> fst ` set m then Some v else map_of m x)"
proof (induction m)
  case Nil
  show ?case by simp
next
  case (Cons p m)
  obtain k' v' where p: "p = (k', v')"
    by (cases p)
  from Cons show ?case
    by (cases "k' = k"; cases "x = k") (simp_all add: p)
qed

lemma map_of_mapSet: "map_of (mapSet m k v) = (map_of m)(k \<mapsto> v)"
proof
  fix x
  show "map_of (mapSet m k v) x = ((map_of m)(k \<mapsto> v)) x"
  proof (cases "k \<in> fst ` set m")
    case True
    then show ?thesis
      unfolding mapSet_def by (simp only: if_True map_of_replace) simp
  next
    case False
    then have "map_of m k = None"
      by (simp add: map_of_eq_None_iff)
    with False show ?thesis
      by (simp add: mapSet_def map_add_def split: option.splits)
  qed
qed

lemma mapSet_replace_keys:
  "map fst (map (\<lambda>(k', v'). if k' = k then (k', v) else (k', v')) m) = map fst m"
  by (induction m) auto

lemma distinct_mapSet:
  assumes "distinct (map fst m)"
  shows "distinct (map fst (mapSet m k v))"
proof (cases "k \<in> fst ` set m")
  case True
  then have "map fst (mapSet m k v) = map fst m"
    unfolding mapSet_def by (simp only: if_True mapSet_replace_keys)
  with assms show ?thesis by simp
next
  case False
  with assms show ?thesis by (simp add: mapSet_def)
qed

lemma splitAcc_not_Nil: "splitAcc sep acc s \<noteq> []"
  by (induction sep acc s rule: splitAcc.induct) auto

lemma tagParts_not_Nil: "tagParts f \<noteq> []"
  by (simp add: tagParts_def Split_def splitAcc_not_Nil)

lemma parseTag_parts:
  assumes "length (tagParts f) \<le> 2" and "parseTag U (TagGet f) = Inr t"
  shows "t = \<lparr>ReflectTag.Name = hd (tagParts f), OmitEmpty = (length (tagParts f) = 2)\<rparr>"
proof -
  from tagParts_not_Nil [of f] have "length (tagParts f) \<noteq> 0"
    by simp
  with assms(1) have "length (tagParts f) = 1 \<or> length (tagParts f) = 2"
    by arith
  with assms(2) tagParts_not_Nil [of f] show ?thesis
    by (auto simp: parseTag_def tagParts_def Let_def hd_conv_nth split: if_splits)
qed

lemma parseTag_wellTagged:
  assumes "wellTagged U f"
  shows "parseTag U (TagGet f) =
    Inr \<lparr>ReflectTag.Name = hd (tagParts f), OmitEmpty = (length (tagParts f) = 2)\<rparr>"
  using assms tagParts_not_Nil [of f]
  by (auto simp: wellTagged_def parseTag_def tagParts_def Let_def hd_conv_nth)

lemma parseTag_rejected:
  assumes "TagGet f = [] \<or> (\<exists>a b. tagParts f = [a, b] \<and> ToLower U b \<noteq> ''omitempty'')"
  shows "isl (parseTag U (TagGet f))"
  using assms by (auto simp: parseTag_def tagParts_def Let_def)

lemma reflectFields_error:
  "\<exists>f\<in>set fs. isl (parseTag U (TagGet f)) \<Longrightarrow> isl (reflectFields U fs acc)"
  by (induction fs arbitrary: acc) (auto simp: Let_def split: sum.splits)

lemma reflectFields_keys:
  "reflectFields U fs acc = Inr flds \<Longrightarrow>
   fst ` set acc \<subseteq> fst ` set flds \<and>
   (\<forall>f\<in>set fs. \<exists>tag. parseTag U (TagGet f) = Inr tag \<and>
      (if ReflectTag.Name tag = [] then ToLower U (fieldName f) else ReflectTag.Name tag)
        \<in> fst ` set flds)"
proof (induction fs arbitrary: acc)
  case Nil
  then show ?case by simp
next
  case (Cons f fs)
  from Cons.prems obtain tag where tag: "parseTag U (TagGet f) = Inr tag"
    and rest: "reflectFields U fs
        (mapSet acc (if ReflectTag.Name tag = [] then ToLower U (fieldName f)
                     else ReflectTag.Name tag)
        \<lparr>ReflectField.Name = fieldName f, Tag = tag, Value = Val (fieldType f)\<rparr>) = Inr flds"
    by (auto simp: Let_def split: sum.splits)
  from Cons.IH [OF rest] tag show ?case
    by (auto simp: mapSet_keys)
qed

lemma reflectFields_wellTagged:
  "\<forall>f\<in>set fs. wellTagged U f \<Longrightarrow>
   \<exists>flds. reflectFields U fs acc = Inr flds \<and>
     map_of flds = map_of acc ++ map_of (rev (map (tagEntry U) fs)) \<and>
     (distinct (map fst acc) \<longrightarrow> distinct (map fst flds))"
proof (induction fs arbitrary: acc)
  case Nil
  then show ?case by simp
next
  case (Cons f fs)
  let ?acc = "mapSet acc (fst (tagEntry U f)) (snd (tagEntry U f))"
  from Cons.prems have f: "wellTagged U f" and fs: "\<forall>f\<in>set fs. wellTagged U f"
    by simp_all
  from Cons.IH [OF fs, of ?acc] obtain flds where
    run: "reflectFields U fs ?acc = Inr flds" and
    entries: "map_of flds = map_of ?acc ++ map_of (rev (map (tagEntry U) fs))" and
    keys: "distinct (map fst ?acc) \<longrightarrow> distinct (map fst flds)"
    by blast
  from run parseTag_wellTagged [OF f]
  have "reflectFields U (f # fs) acc = Inr flds"
    by (cases "hd (tagParts f) = []") (simp_all add: Let_def tagEntry_def tagColumn_def)
  moreover have "map_of flds = map_of acc ++ map_of (rev (map (tagEntry U) (f # fs)))"
    by (simp add: entries map_of_mapSet fun_eq_iff map_add_def split: option.splits)
  moreover from keys have "distinct (map fst acc) \<longrightarrow> distinct (map fst flds)"
    by (simp add: distinct_mapSet)
  ultimately show ?case by blast
qed


lemma Reflect_rejected:
  assumes "\<exists>g\<in>set fs. TagGet g = [] \<or>
      (\<exists>c d. tagParts g = [c, d] \<and> ToLower U d \<noteq> ''omitempty'')"
  shows "isl (Reflect U (Val (StructT n fs)))"
proof -
  from assms obtain g where "g \<in> set fs" and
    "TagGet g = [] \<or> (\<exists>c d. tagParts g = [c, d] \<and> ToLower U d \<noteq> ''omitempty'')"
    by (rule bexE)
  then have "\<exists>g\<in>set fs. isl (parseTag U (TagGet g))"
    by (intro bexI [of _ g] parseTag_rejected)
  from reflectFields_error [OF this, of "[]"]
  show "isl (Reflect U (Val (StructT n fs)))"
    by (auto simp: Reflect_def isl_def)
qed

lemma Reflect_wellTagged:
  assumes "\<forall>g\<in>set fs. wellTagged U g"
  shows "\<exists>r. Reflect U (Val (StructT n fs)) = Inr (AsStruct r) \<and>
      ReflectStruct.Name r = n \<and> distinct (map fst (Fields r)) \<and>
      map_of (Fields r) = map_of (rev (map (tagEntry U) fs))"
proof -
  from reflectFields_wellTagged [OF assms, of "[]"] obtain flds where
    run: "reflectFields U fs [] = Inr flds" and
    entries: "map_of flds = map_of (rev (map (tagEntry U) fs))" and
    keys: "distinct (map fst flds)"
    by auto
  from run have "Reflect U (Val (StructT n fs)) =
      Inr (AsStruct \<lparr>ReflectStruct.Name = n, Fields = flds, Value = Val (StructT n fs)\<rparr>)"
    by (simp add: Reflect_def)
  with entries keys show ?thesis
    by simp
qed

lemma Reflect_key:
  assumes ok: "Reflect U (Val (StructT n fs)) = Inr info" and f: "f \<in> set fs"
    and parts: "length (tagParts f) \<le> 2"
  shows "\<exists>r. info = AsStruct r \<and> tagColumn U f \<in> fst ` set (Fields r)"
proof -
  from ok obtain flds where flds: "reflectFields U fs [] = Inr flds"
    and info: "info = AsStruct \<lparr>ReflectStruct.Name = n, Fields = flds, Value = Val (StructT n fs)\<rparr>"
    by (auto simp: Reflect_def split: sum.splits)
  from reflectFields_keys [OF flds]
  have "\<forall>f\<in>set fs. \<exists>tag. parseTag U (TagGet f) = Inr tag \<and>
      (if ReflectTag.Name tag = [] then ToLower U (fieldName f) else ReflectTag.Name tag)
        \<in> fst ` set flds"
    by (rule conjunct2)
  from bspec [OF this f] obtain t where
    t: "parseTag U (TagGet f) = Inr t" and
    key: "(if ReflectTag.Name t = [] then ToLower U (fieldName f) else ReflectTag.Name t)
        \<in> fst ` set flds"
    by (elim exE conjE)
  from parseTag_parts [OF parts t] have "ReflectTag.Name t = hd (tagParts f)"
    by simp
  with key have "tagColumn U f \<in> fst ` set flds"
    by (auto simp: tagColumn_def split: if_splits)
  with info show ?thesis
    by simp
qed

text \<open>
  Claim C6, as the source has it. \<open>Tag.Get\<close> gives the empty string for a field with
  no \<open>db\<close> tag, and \<open>parseTag\<close> rejects the empty string, so reflecting a struct with
  an untagged field is an error; the field is not filed under its lower-cased name.
\<close>

theorem Reflect_absent_tag_counterexample:
  "Reflect latin1 (Val (StructT ''Person'' [StructField ''Name'' None (Basic String)])) =
     Inl UnexpectedEmptyTag"
  by (simp add: reflect_defs)

text \<open>
  Claim C6, amended. A field whose \<open>db\<close> tag is absent is rejected like one whose tag is
  empty; a tag of two comma-separated parts whose second part, in lower case, is not
  \<open>omitempty\<close> is rejected; a struct with a field whose tag is empty or has such two
  parts is not reflected. A struct all of whose fields are tagged \<open>name\<close> or
  \<open>name,omitempty\<close> (the tag not empty) is reflected: the descriptor has the name of
  the type and one entry for each key, the key of a field being the first part of its
  tag, or the field's name in lower case when that part is empty, and the entry under
  a key being that of the last field with that key; the entry holds the field's name,
  the first part of the tag and whether the tag has a second part. In any struct that
  is reflected, the key of a field whose tag has at most two parts is a key of the
  descriptor. Nothing is said of a tag of three or more parts.
\<close>

theorem Reflect_column_names:
  "(dbTag f = None \<or> dbTag f = Some [] \<longrightarrow> parseTag U (TagGet f) = Inl UnexpectedEmptyTag)
   \<and> (Split tag '','' = [a, b] \<and> ToLower U b \<noteq> ''omitempty'' \<longrightarrow>
        parseTag U tag = Inl (UnexpectedTagValue b))
   \<and> ((\<exists>g\<in>set fs. TagGet g = [] \<or>
          (\<exists>c d. tagParts g = [c, d] \<and> ToLower U d \<noteq> ''omitempty'')) \<longrightarrow>
        isl (Reflect U (Val (StructT n fs))))
   \<and> ((\<forall>g\<in>set fs. wellTagged U g) \<longrightarrow>
        (\<exists>r. Reflect U (Val (StructT n fs)) = Inr (AsStruct r) \<and>
           ReflectStruct.Name r = n \<and>
           distinct (map fst (Fields r)) \<and>
           map_of (Fields r) = map_of (rev (map (tagEntry U) fs))))
   \<and> (Reflect U (Val (StructT n fs)) = Inr info \<and> f \<in> set fs \<and> length (tagParts f) \<le> 2 \<longrightarrow>
        (\<exists>r. info = AsStruct r \<and> tagColumn U f \<in> fst ` set (Fields r)))"
proof (intro conjI impI)
  assume "dbTag f = None \<or> dbTag f = Some []"
  then show "parseTag U (TagGet f) = Inl UnexpectedEmptyTag"
    by (auto simp: parseTag_def TagGet_def)
next
  assume split: "Split tag '','' = [a, b] \<and> ToLower U b \<noteq> ''omitempty''"
  then have "tag \<noteq> []"
    by (auto simp: Split_def)
  with split show "parseTag U tag = Inl (UnexpectedTagValue b)"
    by (simp add: parseTag_def)
next
  assume "\<exists>g\<in>set fs. TagGet g = [] \<or>
      (\<exists>c d. tagParts g = [c, d] \<and> ToLower U d \<noteq> ''omitempty'')"
  then show "isl (Reflect U (Val (StructT n fs)))"
    by (rule Reflect_rejected)
next
  assume "\<forall>g\<in>set fs. wellTagged U g"
  then show "\<exists>r. Reflect U (Val (StructT n fs)) = Inr (AsStruct r) \<and>
      ReflectStruct.Name r = n \<and> distinct (map fst (Fields r)) \<and>
      map_of (Fields r) = map_of (rev (map (tagEntry U) fs))"
    by (rule Reflect_wellTagged)
next
  assume "Reflect U (Val (StructT n fs)) = Inr info \<and> f \<in> set fs \<and>
      length (tagParts f) \<le> 2"
  then have "Reflect U (Val (StructT n fs)) = Inr info" and "f \<in> set fs"
    and "length (tagParts f) \<le> 2"
    by simp_all
  then show "\<exists>r. info = AsStruct r \<and> tagColumn U f \<in> fst ` set (Fields r)"
    by (rule Reflect_key)
qed

theorem Reflect_column_names_witness:
  "parseTag latin1 (TagGet (StructField ''Name'' None (Basic String))) = Inl UnexpectedEmptyTag
   \<and> parseTag latin1 ''name,required'' = Inl (UnexpectedTagValue ''required'')
   \<and> isl (Reflect latin1 (Val (StructT ''P'' [StructField ''Name'' None (Basic String)])))
   \<and> (\<exists>r. Reflect latin1 (Val (StructT ''T''
              [StructField ''ID'' (Some ''id'') (Basic Int64),
               StructField ''Name'' (Some ''name,omitempty'') (Basic String),
               StructField ''NAME'' (Some '',omitempty'') (Basic Bool)])) = Inr (AsStruct r)
          \<and> ReflectStruct.Name r = ''T''
          \<and> distinct (map fst (Fields r))
          \<and> map_of (Fields r) ''id'' =
              Some \<lparr>ReflectField.Name = ''ID'',
                    Tag = \<lparr>ReflectTag.Name = ''id'', OmitEmpty = False\<rparr>,
                    Value = Val (Basic Int64)\<rparr>
          \<and> map_of (Fields r) ''name'' =
              Some \<lparr>ReflectField.Name = ''NAME'',
                    Tag = \<lparr>ReflectTag.Name = [], OmitEmpty = True\<rparr>,
                    Value = Val (Basic Bool)\<rparr>
          \<and> ''name'' \<in> fst ` set (Fields r))"
proof -
  let ?untagged = "StructField ''Name'' None (Basic String)"
  let ?id = "StructField ''ID'' (Some ''id'') (Basic Int64)"
  let ?name = "StructField ''Name'' (Some ''name,omitempty'') (Basic String)"
  let ?unnamed = "StructField ''NAME'' (Some '',omitempty'') (Basic Bool)"
  let ?fs = "[?id, ?name, ?unnamed]"
  have split: "Split ''name,required'' '','' = [''name'', ''required'']"
    by (simp add: Split_def)
  have lower: "ToLower latin1 ''required'' \<noteq> ''omitempty''"
    by (simp add: ToLower_def asciiLower_def byte_def)
  have rejected: "\<exists>g\<in>set [?untagged]. TagGet g = [] \<or>
      (\<exists>c d. tagParts g = [c, d] \<and> ToLower latin1 d \<noteq> ''omitempty'')"
    by (simp add: TagGet_def)
  have parts: "tagParts ?id = [''id'']" "tagParts ?name = [''name'', ''omitempty'']"
    "tagParts ?unnamed = ['''', ''omitempty'']"
    by (simp_all add: tagParts_def TagGet_def Split_def)
  have well: "\<forall>g\<in>set ?fs. wellTagged latin1 g"
    by (simp add: wellTagged_def parts TagGet_def ToLower_def asciiLower_def byte_def)
  have columns: "tagColumn latin1 ?id = ''id''" "tagColumn latin1 ?name = ''name''"
    "tagColumn latin1 ?unnamed = ''name''"
    by (simp_all add: tagColumn_def parts ToLower_def asciiLower_def byte_def
        char_of_def bit_Suc_0_iff)
  from Reflect_column_names [of ?untagged latin1 "''name,required''" "''name''" "''required''"
      "[?untagged]" "''P''" "AsValue NilValue"] split lower rejected
  have first: "parseTag latin1 (TagGet ?untagged) = Inl UnexpectedEmptyTag
     \<and> parseTag latin1 ''name,required'' = Inl (UnexpectedTagValue ''required'')
     \<and> isl (Reflect latin1 (Val (StructT ''P'' [?untagged])))"
    by (simp add: TagGet_def)
  note second = Reflect_column_names [of ?name latin1 "''name,required''" "''name''"
      "''required''" ?fs "''T''"]
  from second well obtain r where
    run: "Reflect latin1 (Val (StructT ''T'' ?fs)) = Inr (AsStruct r)" and
    name: "ReflectStruct.Name r = ''T''" and
    keys: "distinct (map fst (Fields r))" and
    entries: "map_of (Fields r) = map_of (rev (map (tagEntry latin1) ?fs))"
    by blast
  from second [of "AsStruct r"] run parts(2)
  have key: "''name'' \<in> fst ` set (Fields r)"
    by (simp add: columns)
  have "map_of (Fields r) ''id'' =
      Some \<lparr>ReflectField.Name = ''ID'',
            Tag = \<lparr>ReflectTag.Name = ''id'', OmitEmpty = False\<rparr>,
            Value = Val (Basic Int64)\<rparr>"
    by (simp add: entries tagEntry_def columns parts)
  moreover have "map_of (Fields r) ''name'' =
      Some \<lparr>ReflectField.Name = ''NAME'',
            Tag = \<lparr>ReflectTag.Name = [], OmitEmpty = True\<rparr>,
            Value = Val (Basic Bool)\<rparr>"
    by (simp add: entries tagEntry_def columns parts)
  ultimately show ?thesis
    using first run name keys key by blast
qed

text \<open>
  The \<open>switch\<close> of \<open>parseTag\<close> has a case for one part and a case for two, and no
  other: a tag of three parts, such as \<open>col,required,x\<close>, gives the zero tag and no error.
\<close>

lemma parseTag_three_parts:
  "parseTag U ''col,required,x'' = Inr \<lparr>ReflectTag.Name = [], OmitEmpty = False\<rparr>"
  by (simp add: parseTag_def Split_def)

text \<open>
  Claim C3. The source means to reject destinations of different kinds (the comment
  in \<open>reflectValues\<close> and the one in \<open>ForOne\<close> say so), and does not: the guard
  compares \<open>entities[i-1]\<close> with \<open>entities[i]\<close> only for \<open>i > 1\<close>, and \<open>ForOne\<close>
  returns a nil error when \<open>reflectValues\<close> fails. So an \<open>int\<close> and a \<open>Person\<close>
  are accepted, with the plan for scalars; and an \<open>int\<close>, an \<open>int\<close> and a \<open>Person\<close>,
  which the guard does catch, give the zero \<open>Query\<close> and no error.
\<close>

theorem ForOne_mixed_kinds:
  "ForOne latin1 exampleQuerier [] [PtrTo (Val (Basic IntKind)), PtrTo (Val Person)] =
     Inr ((\<lparr>entities = [AsValue (Val (Basic IntKind)), AsStruct personStruct],
            hook = None, executePlan = Some callDefaultScan,
            stmtCache = Some 2, reflect = Some 1\<rparr>, None),
          [(Basic IntKind, AsValue (Val (Basic IntKind))), (Person, AsStruct personStruct)])
   \<and> ForOne latin1 exampleQuerier []
        [PtrTo (Val (Basic IntKind)), PtrTo (Val (Basic IntKind)), PtrTo (Val Person)] =
     Inr ((zeroQuery, None),
          [(Basic IntKind, AsValue (Val (Basic IntKind))), (Person, AsStruct personStruct)])"
  by (simp add: ForOne_def reflect_defs example_defs)




text \<open>
  Claim C9. When \<open>reflectValues\<close> returns an error, \<open>ForOne\<close> and \<open>ForMany\<close> both
  return the zero \<open>Query\<close> and the nil error.
\<close>

theorem reflect_error_discarded:
  "reflectValues U cache dests = Inr (Inl err, cache') \<longrightarrow>
     ForOne U q cache dests = Inr ((zeroQuery, None), cache') \<and>
     ForMany U q cache dests = Inr ((zeroQuery, None), cache')"
  by (cases dests) (auto simp: ForOne_def ForMany_def reflectValues_def)

theorem reflect_error_discarded_witness:
  "reflectValues latin1 [] [PtrTo (Val (StructT ''P'' [StructField ''Name'' (Some []) (Basic String)]))]
     = Inr (Inl (WrapReflect UnexpectedEmptyTag), [])
   \<and> ForOne latin1 exampleQuerier []
        [PtrTo (Val (StructT ''P'' [StructField ''Name'' (Some []) (Basic String)]))]
     = Inr ((zeroQuery, None), [])
   \<and> ForMany latin1 exampleQuerier []
        [PtrTo (Val (StructT ''P'' [StructField ''Name'' (Some []) (Basic String)]))]
     = Inr ((zeroQuery, None), [])"
proof -
  have failed: "reflectValues latin1 []
      [PtrTo (Val (StructT ''P'' [StructField ''Name'' (Some []) (Basic String)]))]
     = Inr (Inl (WrapReflect UnexpectedEmptyTag), [])"
    by (simp add: reflect_defs)
  with reflect_error_discarded [of latin1 "[]" _ "WrapReflect UnexpectedEmptyTag" "[]"
      exampleQuerier]
  show ?thesis
    by simp
qed

section \<open>Properties of the path parser and of the statement compiler\<close>

subsection \<open>More fuel does not change a result\<close>

lemma parse_fuel_Suc:
  "(\<forall>prec p r. parseExpression n U prec p = Some r \<longrightarrow> parseExpression (Suc n) U prec p = Some r) \<and>
   (\<forall>prec e p r. infixLoop n U prec e p = Some r \<longrightarrow> infixLoop (Suc n) U prec e p = Some r) \<and>
   (\<forall>p r. parseGroup n U p = Some r \<longrightarrow> parseGroup (Suc n) U p = Some r) \<and>
   (\<forall>e p r. parseIndex n U e p = Some r \<longrightarrow> parseIndex (Suc n) U e p = Some r) \<and>
   (\<forall>e p r. parseAccessor n U e p = Some r \<longrightarrow> parseAccessor (Suc n) U e p = Some r)"
proof (induction n)
  case 0
  show ?case
    by (simp add: parseExpression.simps infixLoop.simps parseGroup.simps parseIndex.simps
        parseAccessor.simps)
next
  case (Suc n)
  then have expr: "\<And>prec p r. parseExpression n U prec p = Some r \<Longrightarrow>
        parseExpression (Suc n) U prec p = Some r"
    and loop: "\<And>prec e p r. infixLoop n U prec e p = Some r \<Longrightarrow>
        infixLoop (Suc n) U prec e p = Some r"
    and group: "\<And>p r. parseGroup n U p = Some r \<Longrightarrow> parseGroup (Suc n) U p = Some r"
    and index: "\<And>e p r. parseIndex n U e p = Some r \<Longrightarrow> parseIndex (Suc n) U e p = Some r"
    and accessor: "\<And>e p r. parseAccessor n U e p = Some r \<Longrightarrow>
        parseAccessor (Suc n) U e p = Some r"
    by blast+
  have 1: "parseExpression (Suc (Suc n)) U prec p = Some r"
    if "parseExpression (Suc n) U prec p = Some r" for prec p r
    using that
    by (subst parseExpression.simps, subst (asm) parseExpression.simps)
      (auto simp: Let_def loop group split: if_splits option.splits prod.splits)
  have 2: "infixLoop (Suc (Suc n)) U prec e p = Some r"
    if "infixLoop (Suc n) U prec e p = Some r" for prec e p r
    using that
    by (subst infixLoop.simps, subst (asm) infixLoop.simps)
      (auto simp: Let_def loop accessor index split: if_splits option.splits prod.splits)
  have 3: "parseGroup (Suc (Suc n)) U p = Some r" if "parseGroup (Suc n) U p = Some r" for p r
    using that
    by (subst parseGroup.simps, subst (asm) parseGroup.simps)
      (auto simp: Let_def expr split: if_splits option.splits prod.splits)
  have 4: "parseIndex (Suc (Suc n)) U e p = Some r" if "parseIndex (Suc n) U e p = Some r"
    for e p r
    using that
    by (subst parseIndex.simps, subst (asm) parseIndex.simps)
      (auto simp: Let_def expr split: if_splits option.splits prod.splits)
  have 5: "parseAccessor (Suc (Suc n)) U e p = Some r" if "parseAccessor (Suc n) U e p = Some r"
    for e p r
    using that
    by (subst parseAccessor.simps, subst (asm) parseAccessor.simps)
      (auto simp: Let_def expr split: if_splits option.splits prod.splits)
  from 1 2 3 4 5 show ?case by blast
qed

lemma parseExpression_fuel_Suc:
  "parseExpression n U prec p = Some r \<Longrightarrow> parseExpression (Suc n) U prec p = Some r"
  using parse_fuel_Suc by blast

lemma RunLoop_fuel_Suc:
  "RunLoop n U p exps = Some r \<Longrightarrow> RunLoop (Suc n) U p exps = Some r"
proof (induction n arbitrary: p exps)
  case 0
  then show ?case by (simp add: RunLoop.simps)
next
  case (Suc n)
  from Suc.prems show ?case
    by (subst RunLoop.simps, subst (asm) RunLoop.simps)
      (auto simp: parseExpressionStatement_def Let_def Suc.IH
        dest: parseExpression_fuel_Suc split: if_splits option.splits prod.splits)
qed

lemma RunLoop_fuel_mono:
  "RunLoop n U p exps = Some r \<Longrightarrow> n \<le> m \<Longrightarrow> RunLoop m U p exps = Some r"
  by (induction m) (auto simp: le_Suc_eq dest: RunLoop_fuel_Suc)

lemma parseRecordPath_fuel_mono:
  "parseRecordPath n U stmt offset = Return r \<Longrightarrow> n \<le> m \<Longrightarrow>
   parseRecordPath m U stmt offset = Return r"
  by (auto simp: parseRecordPath_def tokenizeRecordPath_def Run_def
      split: if_splits option.splits outcome.splits prod.splits
      dest: RunLoop_fuel_mono)

subsection \<open>The paths of the tests\<close>

lemma path_indexed:
  "parseRecordPath 10 U ''Person[0].name[1].head'' 0 =
     Return ([makeRecordPathIdent ''Person'', makeRecordPathInteger 0,
              makeRecordPathIdent ''name'', makeRecordPathInteger 1,
              makeRecordPathIdent ''head''], 22, None)"
  by code_simp

lemma path_wildcard:
  "parseRecordPath 10 U ''Person.*.name[1]'' 0 =
     Return ([makeRecordPathIdent ''Person'', makeRecordPathIdent ''*'',
              makeRecordPathIdent ''name'', makeRecordPathInteger 1], 16, None)"
  by code_simp

lemma path_wildcard_AS:
  "parseRecordPath 10 U ''Person.*.name[1] AS'' 0 =
     Return ([makeRecordPathIdent ''Person'', makeRecordPathIdent ''*'',
              makeRecordPathIdent ''name'', makeRecordPathInteger 1], 16, None)"
  by code_simp

lemma path_wildcard_AS_parsed:
  "map_option (\<lambda>(exps, p). (length exps, terminated p, Type (currentToken p),
                            Offset (Pos (currentToken p))))
     (RunLoop 10 U (NewParser U (NewLexer ''Person.*.name[1] AS'')) []) =
   Some (1, True, SEPARATOR, 16)"
  by code_simp

text \<open>
  Claim C8. With fuel 10 or more, \<open>Person[0].name[1].head\<close> compiles to the atoms
  \<open>Person\<close>, 0, \<open>name\<close>, 1, \<open>head\<close>; and \<open>Person.*.name[1] AS\<close> compiles to
  what \<open>Person.*.name[1]\<close> compiles to, the atoms \<open>Person\<close>, \<open>*\<close>, \<open>name\<close>, 1, with
  16 runes consumed: the parser has one statement, is terminated, and its current token
  is the separator at offset 16, before \<open>AS\<close>.
\<close>

theorem parseRecordPath_flatten:
  "10 \<le> n \<Longrightarrow>
   parseRecordPath n U ''Person[0].name[1].head'' 0 =
     Return ([makeRecordPathIdent ''Person'', makeRecordPathInteger 0,
              makeRecordPathIdent ''name'', makeRecordPathInteger 1,
              makeRecordPathIdent ''head''], 22, None)
   \<and> parseRecordPath n U ''Person.*.name[1] AS'' 0 =
       parseRecordPath n U ''Person.*.name[1]'' 0
   \<and> parseRecordPath n U ''Person.*.name[1] AS'' 0 =
       Return ([makeRecordPathIdent ''Person'', makeRecordPathIdent ''*'',
                makeRecordPathIdent ''name'', makeRecordPathInteger 1], 16, None)
   \<and> map_option (\<lambda>(exps, p). (length exps, terminated p, Type (currentToken p),
                                Offset (Pos (currentToken p))))
         (RunLoop n U (NewParser U (NewLexer ''Person.*.name[1] AS'')) []) =
       Some (1, True, SEPARATOR, 16)"
proof -
  assume fuel: "10 \<le> n"
  have indexed: "parseRecordPath n U ''Person[0].name[1].head'' 0 =
           Return ([makeRecordPathIdent ''Person'', makeRecordPathInteger 0,
                    makeRecordPathIdent ''name'', makeRecordPathInteger 1,
                    makeRecordPathIdent ''head''], 22, None)"
    using fuel by (rule parseRecordPath_fuel_mono [OF path_indexed])
  have as: "parseRecordPath n U ''Person.*.name[1] AS'' 0 =
           Return ([makeRecordPathIdent ''Person'', makeRecordPathIdent ''*'',
                    makeRecordPathIdent ''name'', makeRecordPathInteger 1], 16, None)"
    using fuel by (rule parseRecordPath_fuel_mono [OF path_wildcard_AS])
  have plain: "parseRecordPath n U ''Person.*.name[1]'' 0 =
           Return ([makeRecordPathIdent ''Person'', makeRecordPathIdent ''*'',
                    makeRecordPathIdent ''name'', makeRecordPathInteger 1], 16, None)"
    using fuel by (rule parseRecordPath_fuel_mono [OF path_wildcard])
  from path_wildcard_AS_parsed [of U] obtain exps p
    where run: "RunLoop 10 U (NewParser U (NewLexer ''Person.*.name[1] AS'')) [] = Some (exps, p)"
      and shape: "(length exps, terminated p, Type (currentToken p), Offset (Pos (currentToken p)))
        = (1, True, SEPARATOR, 16)"
    by (auto simp: map_option_case split: option.splits)
  from RunLoop_fuel_mono [OF run fuel] shape
  have "map_option (\<lambda>(exps, p). (length exps, terminated p, Type (currentToken p),
                                  Offset (Pos (currentToken p))))
           (RunLoop n U (NewParser U (NewLexer ''Person.*.name[1] AS'')) []) =
         Some (1, True, SEPARATOR, 16)"
    by simp
  with indexed as plain show ?thesis
    by simp
qed

theorem parseRecordPath_flatten_witness:
  "(10::nat) \<le> 12
   \<and> parseRecordPath 12 latin1 ''Person[0].name[1].head'' 0 =
       Return ([makeRecordPathIdent ''Person'', makeRecordPathInteger 0,
                makeRecordPathIdent ''name'', makeRecordPathInteger 1,
                makeRecordPathIdent ''head''], 22, None)
   \<and> parseRecordPath 12 latin1 ''Person.*.name[1] AS'' 0 =
       parseRecordPath 12 latin1 ''Person.*.name[1]'' 0"
proof -
  have fuel: "(10::nat) \<le> 12" by simp
  from parseRecordPath_flatten [OF fuel, of latin1] fuel show ?thesis
    by simp
qed

subsection \<open>The record scanner finds nothing\<close>

lemma parseRecordsLoop_returns_records:
  "parseRecordsLoop n U stmt i records = Return (Inr found) \<Longrightarrow> found = records"
proof (induction n U stmt i records rule: parseRecordsLoop.induct)
  case (1 n U stmt i records)
  from "1.prems" show ?case
    by (subst (asm) parseRecordsLoop.simps)
      (auto simp: Let_def split: if_splits outcome.splits prod.splits option.splits sum.splits
        dest: "1.IH")
qed

lemma expandRecords_Nil: "expandRecords stmt [] ents intersections = Return (Inr stmt)"
  by (simp add: expandRecords_def)

lemma compileStatement_unchanged:
  "compileStatement n U stmt ents = Return (Inr (stmt', flds)) \<Longrightarrow> stmt' = stmt \<and> flds = []"
  by (auto simp: compileStatement_def parseRecords_def expandRecords_Nil
      split: option.splits outcome.splits sum.splits
      dest!: parseRecordsLoop_returns_records)

text \<open>
  Claim C10. Whatever the statement, the offset and the fuel, a list of record
  bindings that \<open>parseRecords\<close> returns is empty; so a statement that
  \<open>compileStatement\<close> returns is the one it was given, and the bindings with it are
  empty.
\<close>

theorem parseRecords_empty:
  "(parseRecords n U stmt offset = Return (Inr records) \<longrightarrow> records = [])
   \<and> (compileStatement n U stmt ents = Return (Inr (stmt', flds)) \<longrightarrow>
        stmt' = stmt \<and> flds = [])"
  by (auto simp: parseRecords_def dest: parseRecordsLoop_returns_records
      compileStatement_unchanged)

text \<open>
  A statement in which the body of the loop of \<open>parseRecords\<close> runs to its end: the
  two paths parse and the selector is \<open>as\<close>.
\<close>

theorem parseRecords_empty_witness:
  "parseRecords 10 latin1 ''as &x'' 3 = Return (Inr [])
   \<and> compileStatement 10 latin1 ''as &x'' [personStruct] = Return (Inr (''as &x'', []))"
proof -
  have scanned: "parseRecords 10 latin1 ''as &x'' 3 = Return (Inr [])"
    by code_simp
  have compiled:
    "compileStatement 10 latin1 ''as &x'' [personStruct] = Return (Inr (''as &x'', []))"
    by code_simp
  from parseRecords_empty [of 10 latin1 "''as &x''" 3 "[]" "[personStruct]" "''as &x''" "[]"]
    scanned compiled
  show ?thesis
    by simp
qed

text \<open>
  Claim C1. The documentation of \<open>Query\<close> and the tests say that the two record
  expressions of this statement are replaced by \<open>people.age, people.name,
  location.city\<close>. \<open>compileStatement\<close> returns the statement as it is, with no
  bindings: \<open>indexOfRecordArgs\<close> looks for \<open>&\<close>, which the statement does not have.
\<close>

theorem compileStatement_braces_unexpanded:
  "compileStatement n U
     ''SELECT {people.* INTO Person}, {location.* INTO Location} FROM people INNER JOIN location WHERE location.id=:loc_id AND people.name=:name;''
     [personStruct, locationStruct] =
   Return (Inr (''SELECT {people.* INTO Person}, {location.* INTO Location} FROM people INNER JOIN location WHERE location.id=:loc_id AND people.name=:name;'', []))"
  by (simp add: compileStatement_def indexOfRecordArgs_def)

section \<open>Properties of the scans\<close>

lemma structScan_miss_keeps_cache:
  "Get c s = None \<Longrightarrow> structScan n U q c tx s args ents = Return (err, c', hooked) \<Longrightarrow> c' = c"
  by (auto simp: structScan_def split: if_splits option.splits outcome.splits sum.splits
      prod.splits dest: compileStatement_unchanged)

lemma structScan_inserts_changed_only:
  "structScan n U q c tx s args ents = Return (err, c', hooked) \<Longrightarrow>
   c' = c \<or> (\<exists>cached. c' = Set c s cached \<and> stmtText cached \<noteq> s)"
  by (auto simp: structScan_def split: if_splits option.splits outcome.splits sum.splits
      prod.splits)

lemma sliceStructScan_keeps_cache:
  "sliceStructScan n U q c rc tx s args slices = Return (err, c', rc', hooked) \<Longrightarrow> c' = c"
  by (auto simp: sliceStructScan_def Let_def split: if_splits option.splits outcome.splits
      sum.splits prod.splits)

text \<open>
  A column whose name has the alias prefix and no alias separator: \<open>structMapping\<close>
  indexes \<open>parts[1]\<close> of a slice of one element.
\<close>

lemma structMapping_alias_without_separator:
  "structMapping U q [\<lparr>ColumnName = ''_pfx_test'', DatabaseTypeName = ''TEXT''\<rparr>] ents flds =
     Inl IndexOutOfRange"
  by (simp add: structMapping_def HasPrefix_def AliasPrefix_def AliasSeparator_def Split_def)

lemmas run_defs =
  structScan_def sliceStructScan_def compileStatement_def indexOfRecordArgs_def Get_def
  query_def testTx_def testRows_def personQuery_def personsQuery_def structMapping_def
  HasPrefix_def AliasPrefix_def AliasSeparator_def Split_def IsExported_def byte_def
  bindingFound_def scanOne_def personStruct_def columnField_def Person_def
  cacheReflect_def mustBe_def Reflect_def parseTag_def TagGet_def ToLower_def mapSet_def
  Let_def

text \<open>
  Claim C4. The test \<open>TestQueryWithStructUsesCache\<close> runs this statement twice into
  a \<open>Person\<close> and then finds it in the cache. On the source the run succeeds with
  the cache as empty as it was, and the hook has seen the statement with its record
  expression still in it; so the second run, from the same cache, misses and compiles
  again. A run into a slice of \<open>Person\<close> compiles and leaves the cache alone.
  (Whenever \<open>structScan\<close> misses the cache it leaves it as it is, see
  \<open>structScan_miss_keeps_cache\<close>; what does hold is that only a statement that
  compilation has changed is ever inserted, \<open>structScan_inserts_changed_only\<close>.)
\<close>

theorem statement_cache_never_filled:
  "structScan n U personQuery [] testTx
     ''SELECT {test.* INTO Person} FROM test WHERE test.name=:name;'' args [personStruct] =
   Return (None, [], [''SELECT {test.* INTO Person} FROM test WHERE test.name=:name;''])
   \<and> sliceStructScan n U personsQuery [] [] testTx
     ''SELECT {test.* INTO Person} FROM test WHERE age>:age'' args
     [\<lparr>slice = Val (SliceT Person), element = personStruct\<rparr>] =
   Return (None, [], [(Person, AsStruct personStruct)],
           [''SELECT {test.* INTO Person} FROM test WHERE age>:age''])"
  by (simp add: run_defs)

end
